theory Spec2Isabelle
  imports Main
begin

section \<open>Python values\<close>

text \<open>
  A Python \<open>str\<close> is a sequence of Unicode code points: \<open>len\<close> counts code points and
  a slice cuts between them.  The source's literals carry characters outside ASCII (the
  cross mark U+274C and other pictographs), so a string is modelled as the list of its
  code points; \<open>ustr\<close> reads an ASCII literal.
\<close>

type_synonym pystr = "nat list"

definition ustr :: "string \<Rightarrow> pystr" where
  "ustr s = map of_char s"

text \<open>The pictographs of the source's literals, by code point.\<close>

definition cross_mark :: nat where "cross_mark = 0x274C"
definition check_mark :: nat where "check_mark = 0x2705"
definition no_entry_sign :: nat where "no_entry_sign = 0x1F6AB"
definition warning_sign :: pystr where "warning_sign = [0x26A0, 0xFE0F]"
definition collision_sign :: nat where "collision_sign = 0x1F4A5"

text \<open>
  The value \<open>res.json()\<close> returns.  An object is the association list of its members
  (looked up with \<open>map_of\<close>).  A Python float is carried by the two things this program
  can observe of it: whether it is zero (its truth value) and the text \<open>str\<close> gives.
\<close>

datatype json =
    JNull
  | JBool bool
  | JInt int
  | JFloat bool pystr
  | JStr pystr
  | JArr "json list"
  | JObj "(pystr \<times> json) list"

text \<open>
  The exceptions the modelled operations raise; every one derives from \<open>Exception\<close>.
  Exhaustion of the interpreter's resources (memory, recursion depth) is outside the
  model.
\<close>

datatype py_exn =
  Timeout | RequestException | JSONDecodeError | AttributeError | TypeError | UnicodeEncodeError

text \<open>Truth value of a Python object (\<open>if x\<close>, \<open>not x\<close>, \<open>bool(x)\<close>).\<close>

fun py_bool :: "json \<Rightarrow> bool" where
  "py_bool JNull = False"
| "py_bool (JBool b) = b"
| "py_bool (JInt i) = (i \<noteq> 0)"
| "py_bool (JFloat z t) = (\<not> z)"
| "py_bool (JStr s) = (s \<noteq> [])"
| "py_bool (JArr xs) = (xs \<noteq> [])"
| "py_bool (JObj kvs) = (kvs \<noteq> [])"

text \<open>\<open>len(x)\<close>: defined on strings, lists and dicts, \<open>TypeError\<close> on the rest.\<close>

fun py_len :: "json \<Rightarrow> py_exn + nat" where
  "py_len (JStr s) = Inr (length s)"
| "py_len (JArr xs) = Inr (length xs)"
| "py_len (JObj kvs) = Inr (length (remdups (map fst kvs)))"
| "py_len v = Inl TypeError"

text \<open>
  \<open>d.get(k, default)\<close>: only a dict has the method; on any other JSON value the attribute
  lookup raises \<open>AttributeError\<close>.
\<close>

definition dict_get :: "json \<Rightarrow> pystr \<Rightarrow> json \<Rightarrow> py_exn + json" where
  "dict_get d k dflt =
     (case d of
        JObj kvs \<Rightarrow> Inr (case map_of kvs k of Some v \<Rightarrow> v | None \<Rightarrow> dflt)
      | _ \<Rightarrow> Inl AttributeError)"

definition bind_exn :: "py_exn + 'a \<Rightarrow> ('a \<Rightarrow> py_exn + 'b) \<Rightarrow> py_exn + 'b" where
  "bind_exn m f = (case m of Inl e \<Rightarrow> Inl e | Inr a \<Rightarrow> f a)"

text \<open>\<open>s.split(sep)\<close> for a one-character separator, and \<open>sep.join(parts)\<close>.\<close>

fun str_split :: "'a \<Rightarrow> 'a list \<Rightarrow> 'a list list" where
  "str_split c [] = [[]]"
| "str_split c (x # xs) =
     (if x = c then [] # str_split c xs
      else (case str_split c xs of [] \<Rightarrow> [[x]] | t # ts \<Rightarrow> (x # t) # ts))"

fun str_join :: "'a list \<Rightarrow> 'a list list \<Rightarrow> 'a list" where
  "str_join sep [] = []"
| "str_join sep [t] = t"
| "str_join sep (t # ts) = t @ sep @ str_join sep ts"

text \<open>Decimal text of a natural number, and \<open>repr\<close> / \<open>str\<close> of a JSON value.\<close>

fun nat_digits :: "nat \<Rightarrow> pystr" where
  "nat_digits n = (if n < 10 then [48 + n] else nat_digits (n div 10) @ [48 + n mod 10])"

declare nat_digits.simps [simp del]

text \<open>
  \<open>repr\<close> of a \<open>str\<close> quotes and escapes it by the interpreter's table of printable
  characters; it is the parameter \<open>rs\<close>.  \<open>repr\<close> of the other values is written out.
\<close>

primrec py_repr :: "(pystr \<Rightarrow> pystr) \<Rightarrow> json \<Rightarrow> pystr" where
  "py_repr rs JNull = ustr ''None''"
| "py_repr rs (JBool b) = (if b then ustr ''True'' else ustr ''False'')"
| "py_repr rs (JInt i) =
     (if i < 0 then ustr ''-'' @ nat_digits (nat (- i)) else nat_digits (nat i))"
| "py_repr rs (JFloat z t) = t"
| "py_repr rs (JStr s) = rs s"
| "py_repr rs (JArr xs) =
     ustr ''['' @ str_join (ustr '', '') (map (py_repr rs) xs) @ ustr '']''"
| "py_repr rs (JObj kvs) =
     ustr ''{'' @ str_join (ustr '', '')
       (map (\<lambda>(k, r). rs k @ ustr '': '' @ r) (map (map_prod id (py_repr rs)) kvs))
     @ ustr ''}''"

text \<open>\<open>str(x)\<close>, which is also what an f-string field \<open>{x}\<close> inserts.\<close>

definition py_str :: "(pystr \<Rightarrow> pystr) \<Rightarrow> json \<Rightarrow> pystr" where
  "py_str rs v = (case v of JStr s \<Rightarrow> s | _ \<Rightarrow> py_repr rs v)"

text \<open>
  Encoding as UTF-8.  The JSON parser accepts an escape of a lone surrogate (a code point
  from U+D800 to U+DFFF) and gives a \<open>str\<close> holding it; \<open>json.dumps\<close> with
  \<open>ensure_ascii=False\<close> writes such a character as it is, and encoding the text then
  raises \<open>UnicodeEncodeError\<close>.  \<open>str_encodable\<close> says that a string can be encoded,
  \<open>json_encodable\<close> that the text rendered for a value can: every string in it, the keys
  of objects included, is encodable (numbers, booleans and null render as ASCII).
\<close>

definition is_surrogate :: "nat \<Rightarrow> bool" where
  "is_surrogate c = (0xD800 \<le> c \<and> c \<le> 0xDFFF)"

definition str_encodable :: "pystr \<Rightarrow> bool" where
  "str_encodable t = list_all (\<lambda>c. \<not> is_surrogate c) t"

primrec json_encodable :: "json \<Rightarrow> bool" where
  "json_encodable JNull = True"
| "json_encodable (JBool b) = True"
| "json_encodable (JInt i) = True"
| "json_encodable (JFloat z t) = True"
| "json_encodable (JStr t) = str_encodable t"
| "json_encodable (JArr xs) = list_all (\<lambda>b. b) (map json_encodable xs)"
| "json_encodable (JObj kvs) =
     list_all (\<lambda>(k, b). str_encodable k \<and> b) (map (map_prod id json_encodable) kvs)"

text \<open>
  \<open>str.isdigit\<close>: true when the string is not empty and every character has the Unicode
  property Numeric_Type = Digit or Decimal.  The ranges are those of Unicode 14.0
  (CPython 3.11): the ASCII digits come first, the superscripts two, three and one next.
\<close>

definition unicode_digit_ranges :: "(nat \<times> nat) list" where
  "unicode_digit_ranges =
    [(48, 57), (178, 179), (185, 185), (1632, 1641), (1776, 1785), (1984, 1993),
     (2406, 2415), (2534, 2543), (2662, 2671), (2790, 2799), (2918, 2927), (3046, 3055),
     (3174, 3183), (3302, 3311), (3430, 3439), (3558, 3567), (3664, 3673), (3792, 3801),
     (3872, 3881), (4160, 4169), (4240, 4249), (4969, 4977), (6112, 6121), (6160, 6169),
     (6470, 6479), (6608, 6618), (6784, 6793), (6800, 6809), (6992, 7001), (7088, 7097),
     (7232, 7241), (7248, 7257), (8304, 8304), (8308, 8313), (8320, 8329), (9312, 9320),
     (9332, 9340), (9352, 9360), (9450, 9450), (9461, 9469), (9471, 9471),
     (10102, 10110), (10112, 10120), (10122, 10130), (42528, 42537), (43216, 43225),
     (43264, 43273), (43472, 43481), (43504, 43513), (43600, 43609), (44016, 44025),
     (65296, 65305), (66720, 66729), (68160, 68163), (68912, 68921), (69216, 69224),
     (69714, 69722), (69734, 69743), (69872, 69881), (69942, 69951), (70096, 70105),
     (70384, 70393), (70736, 70745), (70864, 70873), (71248, 71257), (71360, 71369),
     (71472, 71481), (71904, 71913), (72016, 72025), (72784, 72793), (73040, 73049),
     (73120, 73129), (92768, 92777), (92864, 92873), (93008, 93017), (120782, 120831),
     (123200, 123209), (123632, 123641), (125264, 125273), (127232, 127242),
     (130032, 130041)]"

definition isdigit_char :: "nat \<Rightarrow> bool" where
  "isdigit_char c = list_ex (\<lambda>(lo, hi). lo \<le> c \<and> c \<le> hi) unicode_digit_ranges"

definition str_isdigit :: "pystr \<Rightarrow> bool" where
  "str_isdigit s = (s \<noteq> [] \<and> list_all isdigit_char s)"

text \<open>What the spec calls a decimal digit: one of the ten characters 0 to 9.\<close>

definition ascii_digit :: "nat \<Rightarrow> bool" where
  "ascii_digit c = (48 \<le> c \<and> c \<le> 57)"

section \<open>The world outside the process\<close>

text \<open>
  What \<open>requests.get\<close> does: it raises (\<open>requests.Timeout\<close>, or another exception of the
  library), or it returns a response with a status code and a body.  The body is \<open>None\<close>
  when it is not JSON, that is when \<open>res.json()\<close> raises.
\<close>

datatype http_result = Raises py_exn | Responds nat "json option"

text \<open>
  The two upstream services answer as they please: \<open>info_api env k uid\<close> is the outcome
  of the \<open>k\<close>-th GET this process sends to the account-info service, for \<open>uid\<close>, and
  \<open>ban_api\<close> likewise for the ban-check service.  \<open>str_repr\<close> is the interpreter's
  \<open>repr\<close> on strings.
\<close>

record env =
  info_api :: "nat \<Rightarrow> pystr \<Rightarrow> http_result"
  ban_api :: "nat \<Rightarrow> pystr \<Rightarrow> http_result"
  str_repr :: "pystr \<Rightarrow> pystr"

text \<open>
  The dict \<open>get_player_info\<close> returns.  The fallback dicts have no \<open>signature\<close> key.
\<close>

record account_record =
  nickname :: json
  region :: json
  lastLoginAt :: pystr
  lastLoginReadable :: json
  createAt :: pystr
  createAtReadable :: json
  level :: pystr
  experience :: pystr
  rank :: pystr
  guild :: json
  signature :: "json option"

record ban_record =
  is_banned :: json
  period :: json
  success :: bool

text \<open>
  The process state: the store of \<open>lru_cache\<close>, most recently used entry first, and the
  number of requests sent so far to each upstream service.
\<close>

record state =
  cache :: "((pystr \<times> pystr) \<times> account_record) list"
  info_calls :: nat
  ban_calls :: nat

record response =
  status :: nat
  body :: json

record request =
  uid_arg :: "pystr option"
  server_arg :: "pystr option"

section \<open>get_player_info\<close>

text \<open>The dict literal the three failure branches return, with its nickname.\<close>

definition fallback_record :: "pystr \<Rightarrow> pystr \<Rightarrow> account_record" where
  "fallback_record nick server =
     \<lparr> nickname = JStr nick,
       region = JStr server,
       lastLoginAt = ustr ''0'',
       lastLoginReadable = JStr (cross_mark # ustr '' Unknown''),
       createAt = ustr ''0'',
       createAtReadable = JStr (cross_mark # ustr '' Unknown''),
       level = ustr ''0'',
       experience = ustr ''0'',
       rank = ustr ''Unknown'',
       guild = JStr (ustr ''None''),
       signature = None \<rparr>"

text \<open>
  The inner function.  A truthy value that is not a string has no \<open>split\<close>; the bare
  \<open>except\<close> then returns it as it came.
\<close>

definition parse_date_string :: "json \<Rightarrow> json" where
  "parse_date_string date_str =
     (if \<not> py_bool date_str then JStr (cross_mark # ustr '' Unknown'')
      else (case date_str of
              JStr s \<Rightarrow>
                (let date_part = take 2 (str_split 32 s)
                 in if length date_part \<ge> 2 then JStr (str_join (ustr '' '') date_part)
                    else date_str)
            | _ \<Rightarrow> date_str))"

text \<open>
  \<open>signature[:50] + "..." if len(signature) > 50 else signature\<close>.  The length is taken
  first.  A list of more than 50 items cannot be added to a string, and a dict cannot be
  sliced: both raise (the dict a \<open>KeyError\<close> from Python 3.12 on, which the same handler
  catches).
\<close>

definition truncate_signature :: "json \<Rightarrow> py_exn + json" where
  "truncate_signature sg =
     bind_exn (py_len sg) (\<lambda>n.
       if n > 50 then
         (case sg of
            JStr s \<Rightarrow> Inr (JStr (take 50 s @ ustr ''...''))
          | _ \<Rightarrow> Inl TypeError)
       else Inr sg)"

text \<open>The body of the \<open>try\<close> block, given what \<open>requests.get\<close> did.\<close>

definition get_player_info_try ::
  "(pystr \<Rightarrow> pystr) \<Rightarrow> http_result \<Rightarrow> pystr \<Rightarrow> py_exn + account_record" where
  "get_player_info_try rs res server =
     (case res of
        Raises e \<Rightarrow> Inl e
      | Responds status_code js \<Rightarrow>
          if status_code \<noteq> 200 then
            Inr (fallback_record (cross_mark # ustr '' Fetch failed'') server)
          else
            (case js of
               None \<Rightarrow> Inl JSONDecodeError
             | Some data \<Rightarrow>
                 bind_exn (dict_get data (ustr ''AccountInfo'') (JObj [])) (\<lambda>account_info.
                 bind_exn (dict_get account_info (ustr ''AccountName'')
                             (JStr (cross_mark # ustr '' Not available''))) (\<lambda>nick.
                 bind_exn (dict_get account_info (ustr ''AccountRegion'') (JStr server)) (\<lambda>reg.
                 bind_exn (dict_get account_info (ustr ''AccountLevel'') (JStr (ustr ''0''))) (\<lambda>lvl.
                 bind_exn (dict_get account_info (ustr ''AccountEXP'') (JStr (ustr ''0''))) (\<lambda>exp.
                 bind_exn (dict_get account_info (ustr ''AccountLastLogin'') (JStr [])) (\<lambda>last_login_str.
                 bind_exn (dict_get account_info (ustr ''AccountCreateTime'') (JStr [])) (\<lambda>create_time_str.
                 bind_exn (dict_get data (ustr ''AccountProfileInfo'') (JObj [])) (\<lambda>account_profile.
                 bind_exn (dict_get account_profile (ustr ''BrRankPoint'') (JStr (ustr ''0''))) (\<lambda>rank_point.
                 bind_exn (dict_get data (ustr ''GuildInfo'') (JObj [])) (\<lambda>guild_info.
                 bind_exn (dict_get guild_info (ustr ''GuildName'') (JStr (ustr ''No Guild''))) (\<lambda>guild_name.
                 bind_exn (dict_get data (ustr ''SocialInfo'') (JObj [])) (\<lambda>social_info.
                 bind_exn (dict_get social_info (ustr ''signature'') (JStr [])) (\<lambda>sg.
                 bind_exn (truncate_signature sg) (\<lambda>sig.
                   Inr \<lparr> nickname = nick,
                         region = reg,
                         lastLoginAt = ustr ''0'',
                         lastLoginReadable = parse_date_string last_login_str,
                         createAt = ustr ''0'',
                         createAtReadable = parse_date_string create_time_str,
                         level = py_str rs lvl,
                         experience = py_str rs exp,
                         rank = ustr ''BR: '' @ py_str rs rank_point,
                         guild = guild_name,
                         signature = Some sig \<rparr>))))))))))))))))"

text \<open>
  The two handlers: \<open>except requests.Timeout\<close> first, \<open>except Exception\<close> for every
  other exception.
\<close>

definition get_player_info_except :: "pystr \<Rightarrow> py_exn + account_record \<Rightarrow> py_exn + account_record" where
  "get_player_info_except server r =
     (case r of
        Inr rec \<Rightarrow> Inr rec
      | Inl Timeout \<Rightarrow> Inr (fallback_record (cross_mark # ustr '' Timeout'') server)
      | Inl _ \<Rightarrow> Inr (fallback_record (cross_mark # ustr '' Error'') server))"

definition get_player_info ::
  "env \<Rightarrow> pystr \<Rightarrow> pystr \<Rightarrow> state \<Rightarrow> (py_exn + account_record) \<times> state" where
  "get_player_info ev player_id server s =
     (let res = info_api ev (info_calls s) player_id;
          s' = s\<lparr>info_calls := Suc (info_calls s)\<rparr>
      in (get_player_info_except server (get_player_info_try (str_repr ev) res server), s'))"

section \<open>The memoised lookup\<close>

text \<open>
  Modelled from the spec: \<open>functools.lru_cache\<close> is standard-library code, not code of
  the repository.  The decorator of the source fixes \<open>maxsize=100\<close> and the key, the pair
  of the two positional arguments; the spec gives the policy: the store holds up to the
  fixed number of (identifier, region) entries and evicts the least recently used one
  when full.  The store is the list of entries, most recently used first.  A hit returns
  the stored record and moves its entry to the front, without calling the function.  A
  miss calls the function; its result is put in front, and when the store was full its
  last entry is dropped.  An exception of the function passes through and nothing is
  stored.
\<close>

definition maxsize :: nat where
  "maxsize = 100"

definition lru_insert :: "nat \<Rightarrow> 'k \<Rightarrow> 'v \<Rightarrow> ('k \<times> 'v) list \<Rightarrow> ('k \<times> 'v) list" where
  "lru_insert n k v c = (k, v) # (if length c \<ge> n then butlast c else c)"

definition lru_promote :: "'k \<Rightarrow> 'v \<Rightarrow> ('k \<times> 'v) list \<Rightarrow> ('k \<times> 'v) list" where
  "lru_promote k v c = (k, v) # filter (\<lambda>e. fst e \<noteq> k) c"

definition get_player_info_cached ::
  "env \<Rightarrow> pystr \<Rightarrow> pystr \<Rightarrow> state \<Rightarrow> (py_exn + account_record) \<times> state" where
  "get_player_info_cached ev player_id server s =
     (case map_of (cache s) (player_id, server) of
        Some r \<Rightarrow> (Inr r, s\<lparr>cache := lru_promote (player_id, server) r (cache s)\<rparr>)
      | None \<Rightarrow>
          (case get_player_info ev player_id server s of
             (Inl e, s') \<Rightarrow> (Inl e, s')
           | (Inr r, s') \<Rightarrow>
               (Inr r, s'\<lparr>cache := lru_insert maxsize (player_id, server) r (cache s')\<rparr>)))"

section \<open>check_ban_status\<close>

definition ban_failed :: ban_record where
  "ban_failed = \<lparr> is_banned = JInt 0, period = JInt 0, success = False \<rparr>"

definition check_ban_status_try :: "http_result \<Rightarrow> py_exn + ban_record" where
  "check_ban_status_try res =
     (case res of
        Raises e \<Rightarrow> Inl e
      | Responds status_code js \<Rightarrow>
          if status_code = 200 then
            (case js of
               None \<Rightarrow> Inl JSONDecodeError
             | Some j \<Rightarrow>
                 bind_exn (dict_get j (ustr ''data'') (JObj [])) (\<lambda>data.
                 bind_exn (dict_get data (ustr ''is_banned'') (JInt 0)) (\<lambda>b.
                 bind_exn (dict_get data (ustr ''period'') (JInt 0)) (\<lambda>p.
                   Inr \<lparr> is_banned = b, period = p, success = True \<rparr>))))
          else Inr ban_failed)"

text \<open>The bare \<open>except\<close> turns every exception into the failure record.\<close>

definition check_ban_status :: "env \<Rightarrow> pystr \<Rightarrow> state \<Rightarrow> ban_record \<times> state" where
  "check_ban_status ev player_id s =
     (let res = ban_api ev (ban_calls s) player_id;
          s' = s\<lparr>ban_calls := Suc (ban_calls s)\<rparr>
      in ((case check_ban_status_try res of Inl e \<Rightarrow> ban_failed | Inr b \<Rightarrow> b), s'))"

section \<open>check_banned_fast\<close>

text \<open>The keys of the result, each a pictograph, a space and a label.\<close>

definition key_status :: pystr where "key_status = check_mark # ustr '' Status''"
definition key_uid :: pystr where "key_uid = 0x1F194 # ustr '' UID''"
definition key_nickname :: pystr where "key_nickname = [0x1F3F7, 0xFE0F] @ ustr '' Nickname''"
definition key_region :: pystr where "key_region = 0x1F30D # ustr '' Region''"
definition key_level :: pystr where "key_level = 0x2B50 # ustr '' Level''"
definition key_experience :: pystr where "key_experience = 0x26A1 # ustr '' Experience''"
definition key_rank :: pystr where "key_rank = 0x1F4CA # ustr '' Rank''"
definition key_guild :: pystr where "key_guild = 0x1F465 # ustr '' Guild''"
definition key_last_login :: pystr where "key_last_login = 0x1F552 # ustr '' Last Login''"
definition key_created_at :: pystr where "key_created_at = 0x1F195 # ustr '' Created At''"
definition key_account :: pystr where "key_account = 0x1F512 # ustr '' Account''"
definition key_duration :: pystr where "key_duration = 0x23F3 # ustr '' Duration''"
definition key_banned :: pystr where "key_banned = 0x1F4CA # ustr '' Banned?''"
definition key_powered_by :: pystr where "key_powered_by = 0x1F48E # ustr '' Powered by''"
definition key_channel :: pystr where "key_channel = 0x1F4E1 # ustr '' Channel''"
definition key_bio :: pystr where "key_bio = [0x270F, 0xFE0F] @ ustr '' BIO''"

text \<open>The dict built from the two records, in the order of the source.\<close>

definition build_result ::
  "(pystr \<Rightarrow> pystr) \<Rightarrow> pystr \<Rightarrow> account_record \<Rightarrow> ban_record \<Rightarrow> (pystr \<times> json) list" where
  "build_result rs player_id player_info ban_info =
     (let banned = py_bool (is_banned ban_info);
          result =
            [(key_status, JStr (if success ban_info then ustr ''Account checked successfully''
                                else ustr ''Partial data fetched'')),
             (key_uid, JStr player_id),
             (key_nickname, nickname player_info),
             (key_region, region player_info),
             (key_level, JStr (level player_info)),
             (key_experience, JStr (experience player_info)),
             (key_rank, JStr (rank player_info)),
             (key_guild, guild player_info),
             (key_last_login, lastLoginReadable player_info),
             (key_created_at, createAtReadable player_info),
             (key_account, JStr (if banned then no_entry_sign # ustr '' BANNED''
                                 else check_mark # ustr '' NOT BANNED'')),
             (key_duration, JStr (if banned then py_str rs (period ban_info) @ ustr '' month(s)''
                                  else ustr ''No ban'')),
             (key_banned, JBool banned),
             (key_powered_by, JStr (ustr ''@dev_eco'')),
             (key_channel, JStr (ustr ''https://discord.gg/Mba5bNbdCP''))]
      in (case signature player_info of
            None \<Rightarrow> result
          | Some sg \<Rightarrow> if py_bool sg then result @ [(key_bio, sg)] else result))"

text \<open>
  The two tasks touch disjoint parts of the state (the cache and the info counter, the
  ban counter), so the order in which the pool runs them does not show; both results are
  awaited.  An exception of a task is raised again by \<open>result()\<close>.
\<close>

definition check_banned_fast ::
  "env \<Rightarrow> pystr \<Rightarrow> pystr \<Rightarrow> state \<Rightarrow> (py_exn + (pystr \<times> json) list) \<times> state" where
  "check_banned_fast ev player_id server s =
     (case get_player_info_cached ev player_id server s of
        (pi, s1) \<Rightarrow>
          (case check_ban_status ev player_id s1 of
             (ban_info, s2) \<Rightarrow>
               (case pi of
                  Inl e \<Rightarrow> (Inl e, s2)
                | Inr player_info \<Rightarrow>
                    (Inr (build_result (str_repr ev) player_id player_info ban_info), s2))))"

section \<open>The routes\<close>

definition error_envelope :: "pystr \<Rightarrow> nat \<Rightarrow> json" where
  "error_envelope msg code =
     JObj [(warning_sign @ ustr '' error'', JStr msg), (ustr ''status_code'', JInt (int code))]"

definition internal_error :: response where
  "internal_error =
     \<lparr> status = 500,
       body = JObj [(collision_sign # ustr '' exception'', JStr (ustr ''Internal server error'')),
                    (ustr ''status_code'', JInt 500)] \<rparr>"

text \<open>
  \<open>Response(json.dumps(v, indent=2, ensure_ascii=False), mimetype=..., status=code)\<close>:
  the constructor encodes the rendered text, and raises when that cannot be done.  The
  body of a response is kept as the JSON value whose rendering the client receives.  The
  error envelopes are rendered with \<open>ensure_ascii\<close> left on, which cannot fail.
\<close>

definition render_response :: "json \<Rightarrow> nat \<Rightarrow> py_exn + response" where
  "render_response v code =
     (if json_encodable v then Inr \<lparr> status = code, body = v \<rparr>
      else Inl UnicodeEncodeError)"

text \<open>\<open>request.args.get(name, default)\<close>.\<close>

definition args_get :: "pystr option \<Rightarrow> pystr \<Rightarrow> pystr" where
  "args_get a dflt = (case a of None \<Rightarrow> dflt | Some v \<Rightarrow> v)"

definition check :: "env \<Rightarrow> request \<Rightarrow> state \<Rightarrow> response \<times> state" where
  "check ev req s =
     (let player_id = args_get (uid_arg req) [];
          server = args_get (server_arg req) (ustr ''BD'')
      in if player_id = [] then
           (\<lparr> status = 400,
              body = error_envelope (ustr ''Player ID (uid) is required!'') 400 \<rparr>, s)
         else if \<not> str_isdigit player_id then
           (\<lparr> status = 400,
              body = error_envelope (ustr ''Invalid UID format. Must be numeric!'') 400 \<rparr>, s)
         else
           (case check_banned_fast ev player_id server s of
              (Inr result, s') \<Rightarrow>
                (case render_response (JObj result) 200 of
                   Inr resp \<Rightarrow> (resp, s')
                 | Inl e \<Rightarrow> (internal_error, s'))
            | (Inl e, s') \<Rightarrow> (internal_error, s')))"


section \<open>Notions used to state the properties\<close>

text \<open>
  A run of memoised lookups, one after the other, each given as its key, the pair of the
  identifier and the region.
\<close>

fun lookups :: "env \<Rightarrow> (pystr \<times> pystr) list \<Rightarrow> state \<Rightarrow> state" where
  "lookups ev [] s = s"
| "lookups ev ((player_id, server) # ks) s =
     lookups ev ks (snd (get_player_info_cached ev player_id server s))"

text \<open>
  What one lookup does to the list of the keys in the store, and what an access does to
  the list of all keys ever looked up, most recent first.
\<close>

definition lru_touch :: "nat \<Rightarrow> 'k list \<Rightarrow> 'k \<Rightarrow> 'k list" where
  "lru_touch n L k =
     (if k \<in> set L then k # removeAll k L
      else k # (if length L \<ge> n then butlast L else L))"

definition move_to_front :: "'k list \<Rightarrow> 'k \<Rightarrow> 'k list" where
  "move_to_front H k = k # removeAll k H"

text \<open>
  The fields of the \<open>/check\<close> result that come from the account record, as the response
  holds them and as a record gives them (the BIO key is there only for a truthy
  signature).
\<close>

definition info_keys :: "pystr list" where
  "info_keys = [key_nickname, key_region, key_level, key_experience, key_rank, key_guild,
                key_last_login, key_created_at, key_bio]"

definition info_fields :: "response \<Rightarrow> json option list" where
  "info_fields r = (case body r of JObj kvs \<Rightarrow> map (map_of kvs) info_keys | _ \<Rightarrow> [])"

definition account_fields :: "account_record \<Rightarrow> json option list" where
  "account_fields r =
     [Some (nickname r), Some (region r), Some (JStr (level r)), Some (JStr (experience r)),
      Some (JStr (rank r)), Some (guild r), Some (lastLoginReadable r),
      Some (createAtReadable r),
      (case signature r of None \<Rightarrow> None | Some sg \<Rightarrow> if py_bool sg then Some sg else None)]"

text \<open>
  An upstream object lacks the keys \<open>ks\<close> of its section \<open>sec\<close>: the section is absent,
  or it is an object with none of the keys.
\<close>

definition lacks_keys :: "(pystr \<times> json) list \<Rightarrow> pystr \<Rightarrow> pystr list \<Rightarrow> bool" where
  "lacks_keys d sec ks =
     (case map_of d sec of
        None \<Rightarrow> True
      | Some (JObj ob) \<Rightarrow> list_all (\<lambda>k. map_of ob k = None) ks
      | Some _ \<Rightarrow> False)"

text \<open>The ban lookup succeeds on a 200 whose body is an object with no \<open>data\<close> member or
  with one that is an object.\<close>

definition ban_lookup_ok :: "http_result \<Rightarrow> bool" where
  "ban_lookup_ok res =
     (case res of
        Responds status_code (Some (JObj ob)) \<Rightarrow>
          status_code = 200 \<and>
          (case map_of ob (ustr ''data'') of
             None \<Rightarrow> True | Some (JObj dt) \<Rightarrow> True | Some _ \<Rightarrow> False)
      | _ \<Rightarrow> False)"

text \<open>A section of the upstream object that the code can read: absent, or an object.\<close>

definition section_ok :: "(pystr \<times> json) list \<Rightarrow> pystr \<Rightarrow> bool" where
  "section_ok d sec =
     (case map_of d sec of None \<Rightarrow> True | Some (JObj ob) \<Rightarrow> True | Some _ \<Rightarrow> False)"

text \<open>Concrete worlds and a fresh process, for the examples.\<close>

definition state0 :: state where
  "state0 = \<lparr> cache = [], info_calls = 0, ban_calls = 0 \<rparr>"

definition env_unavailable :: env where
  "env_unavailable =
     \<lparr> info_api = (\<lambda>k u. Responds 503 None),
       ban_api = (\<lambda>k u. Raises Timeout),
       str_repr = (\<lambda>t. t) \<rparr>"

text \<open>
  A world whose ban service reports a ban with a period that is a string holding the lone
  surrogate U+D800, and one whose account-info service answers 200 with an account name
  that is such a string.
\<close>

definition env_surrogate_ban :: env where
  "env_surrogate_ban =
     \<lparr> info_api = (\<lambda>k u. Responds 200 (Some (JObj []))),
       ban_api = (\<lambda>k u. Responds 200 (Some (JObj
         [(ustr ''data'', JObj [(ustr ''is_banned'', JInt 1),
                                (ustr ''period'', JStr [0xD800])])]))),
       str_repr = (\<lambda>t. t) \<rparr>"


definition env_banned :: env where
  "env_banned =
     \<lparr> info_api = (\<lambda>k u. Responds 200 (Some (JObj []))),
       ban_api = (\<lambda>k u. Responds 200 (Some (JObj
         [(ustr ''data'', JObj [(ustr ''is_banned'', JInt 1), (ustr ''period'', JInt 3)])]))),
       str_repr = (\<lambda>t. t) \<rparr>"

section \<open>Splitting and joining\<close>

lemma str_split_no_sep: "c \<notin> set a \<Longrightarrow> str_split c a = [a]"
  by (induction a) auto

lemma str_split_at_sep: "c \<notin> set a \<Longrightarrow> str_split c (a @ c # r) = a # str_split c r"
  by (induction a) auto

lemma str_split_nonempty: "str_split c s \<noteq> []"
  by (induction s) (auto split: list.splits)

lemma str_split_tokens: "t \<in> set (str_split c s) \<Longrightarrow> c \<notin> set t"
  by (induction s arbitrary: t) (auto split: if_splits list.splits)

lemma str_join_cons_head: "str_join sep ((x # t) # ts) = x # str_join sep (t # ts)"
  by (cases ts) auto

text \<open>Joining the tokens of a string with the separator gives the string back.\<close>

lemma str_join_split: "str_join [c] (str_split c s) = s"
proof (induction s)
  case Nil
  then show ?case by simp
next
  case (Cons x xs)
  show ?case
  proof (cases "str_split c xs")
    case Nil
    then show ?thesis by (simp add: str_split_nonempty)
  next
    case (Cons t ts)
    with Cons.IH show ?thesis
      by (cases ts) (auto simp: str_join_cons_head)
  qed
qed

lemma ustr_space: "ustr '' '' = [32]"
  by (simp add: ustr_def)

section \<open>Timestamp parsing\<close>

lemma parse_date_string_tokens:
  assumes ne: "s \<noteq> []"
  shows "parse_date_string (JStr s) = JStr (str_join (ustr '' '') (take 2 (str_split 32 s)))"
proof -
  consider (two) "length (take 2 (str_split 32 s)) \<ge> 2"
    | (one) "length (take 2 (str_split 32 s)) < 2"
    by linarith
  then show ?thesis
  proof cases
    case two
    then show ?thesis
      using ne by (simp add: parse_date_string_def Let_def)
  next
    case one
    then have "take 2 (str_split 32 s) = str_split 32 s"
      by simp
    moreover have "str_join [32] (str_split 32 s) = s"
      by (rule str_join_split)
    ultimately show ?thesis
      using ne one by (simp add: parse_date_string_def Let_def ustr_space)
  qed
qed

lemma parse_date_string_zone:
  assumes "32 \<notin> set a" and "32 \<notin> set b"
  shows "parse_date_string (JStr (a @ 32 # b @ 32 # rest)) = JStr (a @ 32 # b)"
proof -
  have "str_split 32 (a @ 32 # b @ 32 # rest) = a # b # str_split 32 rest"
    using assms by (simp add: str_split_at_sep)
  then show ?thesis
    by (simp add: parse_date_string_def Let_def ustr_space)
qed

text \<open>
  Claim C7.  On the empty string the parser returns the Unknown marker text, which is the
  cross mark, a space and the word Unknown.  On every other string it returns the first
  two of the tokens that single spaces delimit, joined by one space.  So a string made of
  a date, a space, a time, a space and anything more (a time-zone abbreviation) is cut
  after the time, and the string 2025-02-10 20:27:51 BDT becomes 2025-02-10 20:27:51.
\<close>

theorem timestamp_parsing:
  "parse_date_string (JStr []) = JStr (cross_mark # ustr '' Unknown'')
   \<and> (s \<noteq> [] \<longrightarrow>
        parse_date_string (JStr s) = JStr (str_join (ustr '' '') (take 2 (str_split 32 s))))
   \<and> (32 \<notin> set a \<and> 32 \<notin> set b \<longrightarrow>
        parse_date_string (JStr (a @ 32 # b @ 32 # rest)) = JStr (a @ 32 # b))
   \<and> parse_date_string (JStr (ustr ''2025-02-10 20:27:51 BDT''))
        = JStr (ustr ''2025-02-10 20:27:51'')"
proof -
  have "parse_date_string (JStr []) = JStr (cross_mark # ustr '' Unknown'')"
    by (simp add: parse_date_string_def)
  moreover have "parse_date_string (JStr (ustr ''2025-02-10 20:27:51 BDT''))
        = JStr (ustr ''2025-02-10 20:27:51'')"
    by (simp add: parse_date_string_def Let_def ustr_def)
  ultimately show ?thesis
    using parse_date_string_tokens parse_date_string_zone by blast
qed

theorem timestamp_parsing_witness:
  "parse_date_string (JStr (ustr ''10:00''))
     = JStr (str_join (ustr '' '') (take 2 (str_split 32 (ustr ''10:00''))))
   \<and> parse_date_string (JStr (ustr ''2025-02-10'' @ 32 # ustr ''20:27:51'' @ 32 # ustr ''IST''))
     = JStr (ustr ''2025-02-10'' @ 32 # ustr ''20:27:51'')"
  using timestamp_parsing [of "ustr ''10:00''" "ustr ''2025-02-10''" "ustr ''20:27:51''" "ustr ''IST''"]
  by (simp add: ustr_def)

section \<open>Recency lists\<close>

lemma remdups_snoc: "remdups (xs @ [x]) = removeAll x (remdups xs) @ [x]"
  by (induction xs) auto

lemma rev_removeAll: "rev (removeAll x xs) = removeAll x (rev xs)"
  by (induction xs) auto

lemma removeAll_take_inside:
  "distinct L \<Longrightarrow> k \<in> set (take n L) \<Longrightarrow> removeAll k (take n L) = take (n - 1) (removeAll k L)"
proof (induction L arbitrary: n)
  case Nil
  then show ?case by simp
next
  case (Cons a L)
  then obtain m where n: "n = Suc m" by (cases n) auto
  show ?case
  proof (cases "a = k")
    case True
    with Cons.prems have "k \<notin> set L" by simp
    then have "k \<notin> set (take m L)" by (meson in_set_takeD)
    with True n \<open>k \<notin> set L\<close> show ?thesis by simp
  next
    case False
    with Cons.prems n have km: "k \<in> set (take m L)" by simp
    then obtain m' where m: "m = Suc m'" by (cases m) auto
    from Cons.IH [of m] Cons.prems km have "removeAll k (take m L) = take (m - 1) (removeAll k L)"
      by simp
    with False n m show ?thesis by simp
  qed
qed

lemma take_removeAll_outside:
  "k \<notin> set (take m L) \<Longrightarrow> take m (removeAll k L) = take m L"
proof (induction L arbitrary: m)
  case Nil
  then show ?case by simp
next
  case (Cons a L)
  show ?case
  proof (cases m)
    case 0
    then show ?thesis by simp
  next
    case (Suc m')
    with Cons.prems have "a \<noteq> k" "k \<notin> set (take m' L)" by auto
    with Cons.IH [of m'] Suc show ?thesis by simp
  qed
qed

lemma lru_touch_take:
  assumes d: "distinct H" and n: "0 < n"
  shows "lru_touch n (take n H) k = take n (move_to_front H k)"
proof -
  obtain n' where n': "n = Suc n'" using n by (cases n) auto
  consider (hit) "k \<in> set (take n H)"
    | (room) "k \<notin> set (take n H)" "length (take n H) < n"
    | (full) "k \<notin> set (take n H)" "length (take n H) \<ge> n"
    by linarith
  then show ?thesis
  proof cases
    case hit
    from removeAll_take_inside [OF d hit] n' hit show ?thesis
      by (simp add: lru_touch_def move_to_front_def)
  next
    case room
    then have len: "length H < n" by simp
    then have t: "take n H = H" by simp
    with room have "k \<notin> set H" by simp
    then have "removeAll k H = H" by simp
    with room t len n' show ?thesis
      by (simp add: lru_touch_def move_to_front_def)
  next
    case full
    then have len: "n \<le> length H" by simp
    have "set (take n' H) \<subseteq> set (take n H)"
      using n' by (simp add: set_take_subset_set_take)
    with full have "k \<notin> set (take n' H)" by blast
    then have "take n' (removeAll k H) = take n' H" by (rule take_removeAll_outside)
    moreover have "butlast (take n H) = take n' H"
      using len n' by (simp add: butlast_take)
    ultimately show ?thesis
      using full n' by (simp add: lru_touch_def move_to_front_def)
  qed
qed

lemma distinct_move_to_front: "distinct H \<Longrightarrow> distinct (move_to_front H k)"
  by (simp add: move_to_front_def distinct_removeAll)

lemma foldl_lru_touch:
  "distinct H \<Longrightarrow> 0 < n \<Longrightarrow>
     foldl (lru_touch n) (take n H) ks = take n (foldl move_to_front H ks)"
proof (induction ks arbitrary: H)
  case Nil
  then show ?case by simp
next
  case (Cons k ks)
  from Cons.prems have "lru_touch n (take n H) k = take n (move_to_front H k)"
    by (simp add: lru_touch_take)
  with Cons.IH [of "move_to_front H k"] Cons.prems show ?case
    by (simp add: distinct_move_to_front)
qed

lemma foldl_move_to_front: "foldl move_to_front [] ks = rev (remdups ks)"
  by (induction ks rule: rev_induct)
     (simp_all add: move_to_front_def remdups_snoc rev_removeAll)

lemma foldl_lru_touch_empty:
  "0 < n \<Longrightarrow> foldl (lru_touch n) [] ks = take n (rev (remdups ks))"
  using foldl_lru_touch [of "[]" n ks] by (simp add: foldl_move_to_front)

section \<open>The store of the memoised lookup\<close>

lemma get_player_info_Inr: "\<exists>r. fst (get_player_info ev uid server s) = Inr r"
  by (cases "get_player_info_try (str_repr ev) (info_api ev (info_calls s) uid) server")
     (simp_all add: get_player_info_def Let_def get_player_info_except_def split: py_exn.splits)

lemma get_player_info_state:
  "snd (get_player_info ev uid server s) = s\<lparr>info_calls := Suc (info_calls s)\<rparr>"
  by (simp add: get_player_info_def Let_def)

lemma cached_hit:
  "map_of (cache s) (uid, server) = Some r \<Longrightarrow>
     get_player_info_cached ev uid server s
       = (Inr r, s\<lparr>cache := lru_promote (uid, server) r (cache s)\<rparr>)"
  by (simp add: get_player_info_cached_def)

lemma cached_miss:
  assumes "map_of (cache s) (uid, server) = None"
    and "fst (get_player_info ev uid server s) = Inr r"
  shows "get_player_info_cached ev uid server s
       = (Inr r, s\<lparr>info_calls := Suc (info_calls s),
                    cache := lru_insert maxsize (uid, server) r (cache s)\<rparr>)"
proof -
  have "get_player_info ev uid server s = (Inr r, s\<lparr>info_calls := Suc (info_calls s)\<rparr>)"
    using assms(2) get_player_info_state [of ev uid server s] by (metis prod.collapse)
  with assms(1) show ?thesis
    by (simp add: get_player_info_cached_def)
qed

lemma map_of_None_keys: "map_of c k = None \<longleftrightarrow> k \<notin> set (map fst c)"
  by (simp add: map_of_eq_None_iff)

lemma keys_lru_promote: "map fst (lru_promote k v c) = k # removeAll k (map fst c)"
  by (induction c) (auto simp: lru_promote_def)

lemma keys_lru_insert:
  "map fst (lru_insert n k v c) = k # (if length (map fst c) \<ge> n then butlast (map fst c) else map fst c)"
  by (simp add: lru_insert_def map_butlast)

lemma cached_keys:
  "map fst (cache (snd (get_player_info_cached ev uid server s)))
     = lru_touch maxsize (map fst (cache s)) (uid, server)"
proof (cases "map_of (cache s) (uid, server)")
  case None
  obtain r where r: "fst (get_player_info ev uid server s) = Inr r"
    using get_player_info_Inr by blast
  from None have "(uid, server) \<notin> set (map fst (cache s))"
    by (simp add: map_of_None_keys)
  with cached_miss [OF None r] show ?thesis
    by (simp add: lru_touch_def keys_lru_insert del: set_map)
next
  case (Some r)
  then have "(uid, server) \<in> set (map fst (cache s))"
    using map_of_None_keys [of "cache s" "(uid, server)"] by simp
  with cached_hit [OF Some] show ?thesis
    by (simp add: lru_touch_def keys_lru_promote del: set_map)
qed

lemma lookups_keys:
  "map fst (cache (lookups ev ks s)) = foldl (lru_touch maxsize) (map fst (cache s)) ks"
proof (induction ks arbitrary: s)
  case Nil
  then show ?case by simp
next
  case (Cons k ks)
  obtain uid server where k: "k = (uid, server)" by (cases k)
  show ?case
    unfolding k by (simp add: Cons.IH cached_keys)
qed

lemma lru_touch_length: "length L \<le> n \<Longrightarrow> 0 < n \<Longrightarrow> length (lru_touch n L k) \<le> n"
proof -
  assume a: "length L \<le> n" "0 < n"
  have "k \<in> set L \<Longrightarrow> length (removeAll k L) < length L"
    by (simp add: length_removeAll_less)
  with a show ?thesis
    by (auto simp: lru_touch_def)
qed

lemma foldl_lru_touch_length:
  "length L \<le> n \<Longrightarrow> 0 < n \<Longrightarrow> length (foldl (lru_touch n) L ks) \<le> n"
  by (induction ks arbitrary: L) (simp_all add: lru_touch_length)

text \<open>
  Claim C3.  The store is keyed by the pair of identifier and region: the same identifier
  under two regions takes two entries.  It never holds more than 100 entries.  After
  any run of lookups from an empty store it holds exactly the 100 most recently looked-up
  distinct keys, most recent first; a lookup of a resident key moves it to the front, and
  a lookup of a new key into a full store drops the last entry, the least recently used
  one.  So after 101 distinct keys the first of them, and only it, is gone and 100 are
  resident.
\<close>

theorem lru_cache_bound:
  "maxsize = 100
   \<and> (length (cache s) \<le> maxsize \<longrightarrow> length (cache (lookups ev ks s)) \<le> maxsize)
   \<and> (cache s = [] \<longrightarrow>
        map fst (cache (lookups ev ks s)) = take maxsize (rev (remdups ks)))
   \<and> (cache s = [] \<and> distinct ks \<and> length ks = 101 \<longrightarrow>
        map fst (cache (lookups ev ks s)) = rev (tl ks)
        \<and> length (cache (lookups ev ks s)) = 100
        \<and> hd ks \<notin> set (map fst (cache (lookups ev ks s))))
   \<and> (cache s = [] \<and> server \<noteq> server' \<longrightarrow>
        map fst (cache (lookups ev [(uid, server), (uid, server')] s))
          = [(uid, server'), (uid, server)])
   \<and> ((uid, server) \<in> set (map fst (cache s)) \<longrightarrow>
        map fst (cache (snd (get_player_info_cached ev uid server s)))
          = (uid, server) # removeAll (uid, server) (map fst (cache s)))
   \<and> ((uid, server) \<notin> set (map fst (cache s)) \<and> length (cache s) = maxsize \<longrightarrow>
        map fst (cache (snd (get_player_info_cached ev uid server s)))
          = (uid, server) # butlast (map fst (cache s)))"
proof -
  have pos: "0 < maxsize" by (simp add: maxsize_def)
  have bound: "length (cache s) \<le> maxsize \<longrightarrow> length (cache (lookups ev ks s)) \<le> maxsize"
  proof
    assume "length (cache s) \<le> maxsize"
    then have "length (foldl (lru_touch maxsize) (map fst (cache s)) ks) \<le> maxsize"
      using pos by (simp add: foldl_lru_touch_length)
    then have "length (map fst (cache (lookups ev ks s))) \<le> maxsize"
      by (simp only: lookups_keys)
    then show "length (cache (lookups ev ks s)) \<le> maxsize" by simp
  qed
  have recent: "cache s = [] \<longrightarrow>
        map fst (cache (lookups ev ks s)) = take maxsize (rev (remdups ks))"
    using pos by (simp add: lookups_keys foldl_lru_touch_empty)
  have many: "cache s = [] \<and> distinct ks \<and> length ks = 101 \<longrightarrow>
        map fst (cache (lookups ev ks s)) = rev (tl ks)
        \<and> length (cache (lookups ev ks s)) = 100
        \<and> hd ks \<notin> set (map fst (cache (lookups ev ks s)))"
  proof
    assume a: "cache s = [] \<and> distinct ks \<and> length ks = 101"
    then obtain k ks' where ks: "ks = k # ks'" by (cases ks) auto
    with a have l: "length ks' = 100" and d: "distinct (k # ks')" by simp_all
    from a recent have "map fst (cache (lookups ev ks s)) = take maxsize (rev (remdups ks))"
      by simp
    also have "\<dots> = take 100 (rev ks' @ [k])"
    proof -
      have "remdups ks = ks" using a by (simp add: distinct_remdups_id)
      then show ?thesis using ks by (simp add: maxsize_def)
    qed
    also have "\<dots> = rev ks'" using l by simp
    finally have keys: "map fst (cache (lookups ev ks s)) = rev (tl ks)" using ks by simp
    have "length (cache (lookups ev ks s)) = length (map fst (cache (lookups ev ks s)))"
      by simp
    also have "\<dots> = length (rev (tl ks))" by (simp only: keys)
    also have "\<dots> = 100" using l ks by simp
    finally have "length (cache (lookups ev ks s)) = 100" .
    moreover have "hd ks \<notin> set (map fst (cache (lookups ev ks s)))"
      unfolding keys using d ks by simp
    ultimately show "map fst (cache (lookups ev ks s)) = rev (tl ks)
        \<and> length (cache (lookups ev ks s)) = 100
        \<and> hd ks \<notin> set (map fst (cache (lookups ev ks s)))"
      using keys by simp
  qed
  have two: "cache s = [] \<and> server \<noteq> server' \<longrightarrow>
        map fst (cache (lookups ev [(uid, server), (uid, server')] s))
          = [(uid, server'), (uid, server)]"
    by (simp add: cached_keys lru_touch_def maxsize_def)
  have hit: "(uid, server) \<in> set (map fst (cache s)) \<longrightarrow>
        map fst (cache (snd (get_player_info_cached ev uid server s)))
          = (uid, server) # removeAll (uid, server) (map fst (cache s))"
    by (simp add: cached_keys lru_touch_def del: set_map)
  have miss: "(uid, server) \<notin> set (map fst (cache s)) \<and> length (cache s) = maxsize \<longrightarrow>
        map fst (cache (snd (get_player_info_cached ev uid server s)))
          = (uid, server) # butlast (map fst (cache s))"
    by (simp add: cached_keys lru_touch_def del: set_map)
  have "maxsize = 100" by (simp add: maxsize_def)
  with bound recent many two hit miss show ?thesis
    by blast
qed

theorem lru_cache_bound_witness:
  "length (cache (lookups env_unavailable (map (\<lambda>i. ([i], ustr ''BD'')) [0..<101]) state0)) = 100
   \<and> map fst (cache (lookups env_unavailable [([49], ustr ''BD''), ([49], ustr ''IND'')] state0))
       = [([49], ustr ''IND''), ([49], ustr ''BD'')]"
  using lru_cache_bound [where s = state0 and ev = env_unavailable
      and ks = "map (\<lambda>i. ([i], ustr ''BD'')) [0..<101]"
      and uid = "[49]" and server = "ustr ''BD''" and server' = "ustr ''IND''"]
  by (simp add: state0_def distinct_map inj_on_def ustr_def)

section \<open>The fallbacks of get_player_info\<close>

lemma get_player_info_fst:
  "fst (get_player_info ev uid server s) =
     get_player_info_except server
       (get_player_info_try (str_repr ev) (info_api ev (info_calls s) uid) server)"
  by (simp add: get_player_info_def Let_def)

lemma except_Inr: "get_player_info_except server (Inr r) = Inr r"
  by (simp add: get_player_info_except_def)

lemma except_Timeout:
  "get_player_info_except server (Inl Timeout)
     = Inr (fallback_record (cross_mark # ustr '' Timeout'') server)"
  by (simp add: get_player_info_except_def)

lemma except_other:
  "e \<noteq> Timeout \<Longrightarrow>
     get_player_info_except server (Inl e)
       = Inr (fallback_record (cross_mark # ustr '' Error'') server)"
  by (cases e) (simp_all add: get_player_info_except_def)

lemma try_not_200:
  "code \<noteq> 200 \<Longrightarrow>
     get_player_info_try rs (Responds code js) server
       = Inr (fallback_record (cross_mark # ustr '' Fetch failed'') server)"
  by (simp add: get_player_info_try_def)

lemma try_raises: "get_player_info_try rs (Raises e) server = Inl e"
  by (simp add: get_player_info_try_def)

lemma try_no_json: "get_player_info_try rs (Responds 200 None) server = Inl JSONDecodeError"
  by (simp add: get_player_info_try_def)

text \<open>
  Claim C2, as the code has it.  \<open>get_player_info\<close> always returns a record and never an
  exception.  On a status other than 200 the record is the fallback whose nickname is the
  cross mark U+274C, a space and the words Fetch failed; on a timeout the same fallback
  with the cross mark and Timeout; on any other exception of the \<open>try\<close> block (a failed
  connection, a body that is not JSON, a value of the wrong type) the same fallback with
  the cross mark and Error.  The fallback has region = the server parameter, both
  timestamps "0", both readable times the cross mark and Unknown, level and experience
  "0", rank "Unknown", guild "None" and no signature.
\<close>

theorem get_player_info_fallbacks:
  "(\<exists>r. fst (get_player_info ev uid server s) = Inr r)
   \<and> (info_api ev (info_calls s) uid = Responds code js \<and> code \<noteq> 200 \<longrightarrow>
        fst (get_player_info ev uid server s)
          = Inr (fallback_record (cross_mark # ustr '' Fetch failed'') server))
   \<and> (info_api ev (info_calls s) uid = Raises Timeout \<longrightarrow>
        fst (get_player_info ev uid server s)
          = Inr (fallback_record (cross_mark # ustr '' Timeout'') server))
   \<and> (get_player_info_try (str_repr ev) (info_api ev (info_calls s) uid) server = Inl e
        \<and> e \<noteq> Timeout \<longrightarrow>
        fst (get_player_info ev uid server s)
          = Inr (fallback_record (cross_mark # ustr '' Error'') server))
   \<and> (info_api ev (info_calls s) uid = Raises e \<and> e \<noteq> Timeout \<longrightarrow>
        fst (get_player_info ev uid server s)
          = Inr (fallback_record (cross_mark # ustr '' Error'') server))
   \<and> (info_api ev (info_calls s) uid = Responds 200 None \<longrightarrow>
        fst (get_player_info ev uid server s)
          = Inr (fallback_record (cross_mark # ustr '' Error'') server))
   \<and> fallback_record nick server =
        \<lparr> nickname = JStr nick, region = JStr server,
          lastLoginAt = ustr ''0'', lastLoginReadable = JStr (cross_mark # ustr '' Unknown''),
          createAt = ustr ''0'', createAtReadable = JStr (cross_mark # ustr '' Unknown''),
          level = ustr ''0'', experience = ustr ''0'', rank = ustr ''Unknown'',
          guild = JStr (ustr ''None''), signature = None \<rparr>"
proof -
  have total: "\<exists>r. fst (get_player_info ev uid server s) = Inr r"
    by (rule get_player_info_Inr)
  have other: "get_player_info_try (str_repr ev) (info_api ev (info_calls s) uid) server = Inl e
        \<and> e \<noteq> Timeout \<longrightarrow>
        fst (get_player_info ev uid server s)
          = Inr (fallback_record (cross_mark # ustr '' Error'') server)"
    by (simp add: get_player_info_fst except_other)
  have shape: "fallback_record nick server =
        \<lparr> nickname = JStr nick, region = JStr server,
          lastLoginAt = ustr ''0'', lastLoginReadable = JStr (cross_mark # ustr '' Unknown''),
          createAt = ustr ''0'', createAtReadable = JStr (cross_mark # ustr '' Unknown''),
          level = ustr ''0'', experience = ustr ''0'', rank = ustr ''Unknown'',
          guild = JStr (ustr ''None''), signature = None \<rparr>"
    by (simp add: fallback_record_def)
  from total other shape show ?thesis
    by (simp add: get_player_info_fst try_not_200 try_raises try_no_json except_Inr
          except_Timeout except_other)
qed

theorem get_player_info_fallbacks_witness:
  "fst (get_player_info env_unavailable (ustr ''12345'') (ustr ''BD'') state0)
     = Inr (fallback_record (cross_mark # ustr '' Fetch failed'') (ustr ''BD''))
   \<and> fst (get_player_info (env_unavailable\<lparr>info_api := \<lambda>k u. Raises Timeout\<rparr>)
            (ustr ''12345'') (ustr ''BD'') state0)
     = Inr (fallback_record (cross_mark # ustr '' Timeout'') (ustr ''BD''))
   \<and> fst (get_player_info (env_unavailable\<lparr>info_api := \<lambda>k u. Responds 200 (Some (JArr []))\<rparr>)
            (ustr ''12345'') (ustr ''BD'') state0)
     = Inr (fallback_record (cross_mark # ustr '' Error'') (ustr ''BD''))"
  using get_player_info_fallbacks [where ev = env_unavailable and uid = "ustr ''12345''"
          and server = "ustr ''BD''" and s = state0 and code = 503 and js = None]
    get_player_info_fallbacks [where ev = "env_unavailable\<lparr>info_api := \<lambda>k u. Raises Timeout\<rparr>"
          and uid = "ustr ''12345''" and server = "ustr ''BD''" and s = state0]
    get_player_info_fallbacks [where ev = "env_unavailable\<lparr>info_api := \<lambda>k u. Responds 200 (Some (JArr []))\<rparr>"
          and uid = "ustr ''12345''" and server = "ustr ''BD''" and s = state0
          and e = AttributeError]
  by (simp add: env_unavailable_def state0_def get_player_info_try_def dict_get_def bind_exn_def)

theorem fetch_failed_nickname_counterexample:
  "fst (get_player_info env_unavailable (ustr ''12345'') (ustr ''BD'') state0)
     = Inr (fallback_record (cross_mark # ustr '' Fetch failed'') (ustr ''BD''))
   \<and> nickname (fallback_record (cross_mark # ustr '' Fetch failed'') (ustr ''BD''))
       \<noteq> JStr (ustr ''Fetch failed'')"
  by (simp add: get_player_info_def Let_def env_unavailable_def state0_def
        get_player_info_try_def get_player_info_except_def fallback_record_def
        cross_mark_def ustr_def)

section \<open>The fields of the result\<close>

lemma key_codes:
  "key_status = [0x2705, 32, 83, 116, 97, 116, 117, 115]"
  "key_uid = [0x1F194, 32, 85, 73, 68]"
  "key_nickname = [0x1F3F7, 0xFE0F, 32, 78, 105, 99, 107, 110, 97, 109, 101]"
  "key_region = [0x1F30D, 32, 82, 101, 103, 105, 111, 110]"
  "key_level = [0x2B50, 32, 76, 101, 118, 101, 108]"
  "key_experience = [0x26A1, 32, 69, 120, 112, 101, 114, 105, 101, 110, 99, 101]"
  "key_rank = [0x1F4CA, 32, 82, 97, 110, 107]"
  "key_guild = [0x1F465, 32, 71, 117, 105, 108, 100]"
  "key_last_login = [0x1F552, 32, 76, 97, 115, 116, 32, 76, 111, 103, 105, 110]"
  "key_created_at = [0x1F195, 32, 67, 114, 101, 97, 116, 101, 100, 32, 65, 116]"
  "key_account = [0x1F512, 32, 65, 99, 99, 111, 117, 110, 116]"
  "key_duration = [0x23F3, 32, 68, 117, 114, 97, 116, 105, 111, 110]"
  "key_banned = [0x1F4CA, 32, 66, 97, 110, 110, 101, 100, 63]"
  "key_powered_by = [0x1F48E, 32, 80, 111, 119, 101, 114, 101, 100, 32, 98, 121]"
  "key_channel = [0x1F4E1, 32, 67, 104, 97, 110, 110, 101, 108]"
  "key_bio = [0x270F, 0xFE0F, 32, 66, 73, 79]"
  by (simp_all add: key_status_def key_uid_def key_nickname_def key_region_def key_level_def
        key_experience_def key_rank_def key_guild_def key_last_login_def key_created_at_def
        key_account_def key_duration_def key_banned_def key_powered_by_def key_channel_def
        key_bio_def check_mark_def ustr_def)

text \<open>
  Looking a key up in the result.  The conditionals inside the values are left alone
  (no case split on them), only the comparisons of keys are decided.
\<close>

lemma build_result_info:
  "map (map_of (build_result rs uid r b)) info_keys = account_fields r"
proof (cases "signature r")
  case None
  then show ?thesis
    by (simp add: build_result_def Let_def info_keys_def account_fields_def key_codes
          split del: if_split)
next
  case (Some sg)
  then show ?thesis
    by (cases "py_bool sg")
       (simp_all add: build_result_def Let_def info_keys_def account_fields_def key_codes
          split del: if_split)
qed

lemma build_result_ban:
  "map (map_of (build_result rs uid r b)) [key_status, key_account, key_duration, key_banned] =
     [Some (JStr (if success b then ustr ''Account checked successfully''
                  else ustr ''Partial data fetched'')),
      Some (JStr (if py_bool (is_banned b) then no_entry_sign # ustr '' BANNED''
                  else check_mark # ustr '' NOT BANNED'')),
      Some (JStr (if py_bool (is_banned b) then py_str rs (period b) @ ustr '' month(s)''
                  else ustr ''No ban'')),
      Some (JBool (py_bool (is_banned b)))]"
proof (cases "signature r")
  case None
  then show ?thesis
    by (simp add: build_result_def Let_def key_codes split del: if_split)
next
  case (Some sg)
  then show ?thesis
    by (cases "py_bool sg")
       (simp_all add: build_result_def Let_def key_codes split del: if_split)
qed

lemma build_result_status:
  "map_of (build_result rs uid r b) key_status =
     Some (JStr (if success b then ustr ''Account checked successfully''
                 else ustr ''Partial data fetched''))"
  using build_result_ban [of rs uid r b] by simp

lemma build_result_account:
  "map_of (build_result rs uid r b) key_account =
     Some (JStr (if py_bool (is_banned b) then no_entry_sign # ustr '' BANNED''
                 else check_mark # ustr '' NOT BANNED''))"
  using build_result_ban [of rs uid r b] by simp

lemma build_result_duration:
  "map_of (build_result rs uid r b) key_duration =
     Some (JStr (if py_bool (is_banned b) then py_str rs (period b) @ ustr '' month(s)''
                 else ustr ''No ban''))"
  using build_result_ban [of rs uid r b] by simp

lemma build_result_banned:
  "map_of (build_result rs uid r b) key_banned = Some (JBool (py_bool (is_banned b)))"
  using build_result_ban [of rs uid r b] by simp

lemma build_result_bio:
  "map_of (build_result rs uid r b) key_bio =
     (case signature r of None \<Rightarrow> None | Some sg \<Rightarrow> if py_bool sg then Some sg else None)"
  using build_result_info [of rs uid r b] by (simp add: info_keys_def account_fields_def)

section \<open>The route through the store\<close>

lemma cached_result:
  "\<exists>r. fst (get_player_info_cached ev uid server s) = Inr r
       \<and> map_of (cache (snd (get_player_info_cached ev uid server s))) (uid, server) = Some r
       \<and> ban_calls (snd (get_player_info_cached ev uid server s)) = ban_calls s"
proof (cases "map_of (cache s) (uid, server)")
  case None
  obtain r where r: "fst (get_player_info ev uid server s) = Inr r"
    using get_player_info_Inr by blast
  from cached_miss [OF None r] show ?thesis
    by (simp add: lru_insert_def)
next
  case (Some r)
  from cached_hit [OF Some] show ?thesis
    by (simp add: lru_promote_def)
qed

lemma check_ban_status_fst:
  "fst (check_ban_status ev uid s)
     = (case check_ban_status_try (ban_api ev (ban_calls s) uid) of
          Inl e \<Rightarrow> ban_failed | Inr b \<Rightarrow> b)"
  by (simp add: check_ban_status_def Let_def)

lemma check_ban_status_snd:
  "snd (check_ban_status ev uid s) = s\<lparr>ban_calls := Suc (ban_calls s)\<rparr>"
  by (simp add: check_ban_status_def Let_def)

lemma check_ban_status_same:
  "ban_api ev' = ban_api ev \<Longrightarrow> ban_calls s' = ban_calls s \<Longrightarrow>
     fst (check_ban_status ev' uid s') = fst (check_ban_status ev uid s)"
  by (simp add: check_ban_status_fst)

lemma check_banned_fast_fst:
  assumes "fst (get_player_info_cached ev uid server s) = Inr r"
  shows "fst (check_banned_fast ev uid server s)
     = Inr (build_result (str_repr ev) uid r
         (fst (check_ban_status ev uid (snd (get_player_info_cached ev uid server s)))))"
  using assms by (auto simp: check_banned_fast_def split: prod.splits)

lemma check_banned_fast_snd:
  "snd (check_banned_fast ev uid server s)
     = snd (check_ban_status ev uid (snd (get_player_info_cached ev uid server s)))"
  by (simp add: check_banned_fast_def split: prod.splits sum.splits)

lemma check_banned_fast_total:
  "\<exists>r. fst (check_banned_fast ev uid server s)
         = Inr (build_result (str_repr ev) uid r (fst (check_ban_status ev uid s)))
       \<and> map_of (cache (snd (get_player_info_cached ev uid server s))) (uid, server) = Some r"
proof -
  obtain r where c: "fst (get_player_info_cached ev uid server s) = Inr r"
    and m: "map_of (cache (snd (get_player_info_cached ev uid server s))) (uid, server) = Some r"
    and b: "ban_calls (snd (get_player_info_cached ev uid server s)) = ban_calls s"
    using cached_result by blast
  have "fst (check_ban_status ev uid (snd (get_player_info_cached ev uid server s)))
          = fst (check_ban_status ev uid s)"
    using b by (simp add: check_ban_status_fst)
  with check_banned_fast_fst [OF c] m show ?thesis
    by simp
qed

lemma str_isdigit_nonempty: "str_isdigit u \<Longrightarrow> u \<noteq> []"
  by (simp add: str_isdigit_def)

lemma str_encodable_Nil: "str_encodable []"
  by (simp add: str_encodable_def)

lemma str_encodable_Cons: "str_encodable (c # t) = (\<not> is_surrogate c \<and> str_encodable t)"
  by (simp add: str_encodable_def)

lemma str_encodable_append: "str_encodable (a @ b) = (str_encodable a \<and> str_encodable b)"
  by (simp add: str_encodable_def)

text \<open>An ASCII literal holds no surrogate.\<close>

lemma str_encodable_ustr: "str_encodable (ustr a)"
proof -
  have "\<not> is_surrogate (of_char c)" for c :: char
  proof -
    have "of_char c < (256 :: nat)"
      by (simp add: of_char_def)
    then have "(of_char c :: nat) < 55296"
      by linarith
    then show ?thesis
      by (simp add: is_surrogate_def)
  qed
  then show ?thesis
    by (simp add: str_encodable_def ustr_def list_all_iff)
qed

lemma keys_encodable:
  "str_encodable key_status" "str_encodable key_uid" "str_encodable key_nickname"
  "str_encodable key_region" "str_encodable key_level" "str_encodable key_experience"
  "str_encodable key_rank" "str_encodable key_guild" "str_encodable key_last_login"
  "str_encodable key_created_at" "str_encodable key_account" "str_encodable key_duration"
  "str_encodable key_banned" "str_encodable key_powered_by" "str_encodable key_channel"
  "str_encodable key_bio"
  by (simp_all add: key_status_def key_uid_def key_nickname_def key_region_def key_level_def
        key_experience_def key_rank_def key_guild_def key_last_login_def key_created_at_def
        key_account_def key_duration_def key_banned_def key_powered_by_def key_channel_def
        key_bio_def check_mark_def str_encodable_Cons str_encodable_append str_encodable_ustr
        is_surrogate_def)

text \<open>
  When the result of \<open>check_banned_fast\<close> can be rendered: when no string that comes
  from the request or from upstream holds a lone surrogate.
\<close>

lemma json_encodable_build_result:
  "json_encodable (JObj (build_result rs uid r b)) \<longleftrightarrow>
     str_encodable uid \<and> json_encodable (nickname r) \<and> json_encodable (region r)
     \<and> str_encodable (level r) \<and> str_encodable (experience r) \<and> str_encodable (rank r)
     \<and> json_encodable (guild r) \<and> json_encodable (lastLoginReadable r)
     \<and> json_encodable (createAtReadable r)
     \<and> (py_bool (is_banned b) \<longrightarrow> str_encodable (py_str rs (period b)))
     \<and> (case signature r of None \<Rightarrow> True | Some sg \<Rightarrow> py_bool sg \<longrightarrow> json_encodable sg)"
  by (auto simp: build_result_def Let_def keys_encodable str_encodable_Cons
        str_encodable_append str_encodable_ustr is_surrogate_def no_entry_sign_def
        check_mark_def split: option.splits)

lemma check_valid:
  assumes "str_isdigit (args_get (uid_arg req) [])"
  shows "check ev req s =
     (case check_banned_fast ev (args_get (uid_arg req) []) (args_get (server_arg req) (ustr ''BD'')) s of
        (Inr result, s') \<Rightarrow>
          (if json_encodable (JObj result) then \<lparr> status = 200, body = JObj result \<rparr>
           else internal_error, s')
      | (Inl e, s') \<Rightarrow> (internal_error, s'))"
  using assms str_isdigit_nonempty [OF assms]
  by (simp add: check_def Let_def render_response_def split: prod.splits sum.splits)

text \<open>A hit and a miss of the store, seen from the route.\<close>

lemma check_valid_fst:
  assumes v: "str_isdigit (args_get (uid_arg req) [])"
    and c: "fst (get_player_info_cached ev (args_get (uid_arg req) [])
                   (args_get (server_arg req) (ustr ''BD'')) s) = Inr r"
  shows "fst (check ev req s) =
     (if json_encodable (JObj (build_result (str_repr ev) (args_get (uid_arg req) []) r
                      (fst (check_ban_status ev (args_get (uid_arg req) []) s))))
      then \<lparr> status = 200,
             body = JObj (build_result (str_repr ev) (args_get (uid_arg req) []) r
                      (fst (check_ban_status ev (args_get (uid_arg req) []) s))) \<rparr>
      else internal_error)"
proof -
  let ?u = "args_get (uid_arg req) []"
  let ?sv = "args_get (server_arg req) (ustr ''BD'')"
  have "ban_calls (snd (get_player_info_cached ev ?u ?sv s)) = ban_calls s"
    using cached_result [of ev ?u ?sv s] by blast
  then have b: "fst (check_ban_status ev ?u (snd (get_player_info_cached ev ?u ?sv s)))
          = fst (check_ban_status ev ?u s)"
    by (simp add: check_ban_status_fst)
  have "fst (check_banned_fast ev ?u ?sv s)
          = Inr (build_result (str_repr ev) ?u r (fst (check_ban_status ev ?u s)))"
    using check_banned_fast_fst [OF c] by (simp only: b)
  then show ?thesis
    by (auto simp: check_valid [OF v] split: prod.splits sum.splits)
qed

lemma check_valid_snd:
  assumes v: "str_isdigit (args_get (uid_arg req) [])"
  shows "snd (check ev req s) =
     snd (check_ban_status ev (args_get (uid_arg req) [])
            (snd (get_player_info_cached ev (args_get (uid_arg req) [])
                    (args_get (server_arg req) (ustr ''BD'')) s)))"
proof -
  have "snd (check ev req s) =
          snd (check_banned_fast ev (args_get (uid_arg req) [])
                 (args_get (server_arg req) (ustr ''BD'')) s)"
    by (simp add: check_valid [OF v] split: prod.splits sum.splits)
  then show ?thesis
    by (simp only: check_banned_fast_snd)
qed

lemma info_fields_build:
  "info_fields \<lparr> status = c, body = JObj (build_result rs uid r b) \<rparr> = account_fields r"
  by (simp add: info_fields_def build_result_info)

lemma status_internal_error: "status internal_error = 500"
  by (simp add: internal_error_def)

lemma info_fields_internal_error:
  "info_fields internal_error = [None, None, None, None, None, None, None, None, None]"
  by (simp add: info_fields_def internal_error_def info_keys_def key_codes collision_sign_def
        ustr_def)

lemma account_fields_not_absent:
  "account_fields r \<noteq> [None, None, None, None, None, None, None, None, None]"
  by (simp add: account_fields_def)

lemma check_resident:
  assumes v: "str_isdigit (args_get (uid_arg req) [])"
    and h: "map_of (cache s) (args_get (uid_arg req) [], args_get (server_arg req) (ustr ''BD''))
              = Some r"
  shows "fst (check ev req s) =
           (if json_encodable (JObj (build_result (str_repr ev) (args_get (uid_arg req) []) r
                      (fst (check_ban_status ev (args_get (uid_arg req) []) s))))
            then \<lparr> status = 200,
                   body = JObj (build_result (str_repr ev) (args_get (uid_arg req) []) r
                      (fst (check_ban_status ev (args_get (uid_arg req) []) s))) \<rparr>
            else internal_error)
       \<and> info_calls (snd (check ev req s)) = info_calls s
       \<and> map_of (cache (snd (check ev req s)))
            (args_get (uid_arg req) [], args_get (server_arg req) (ustr ''BD'')) = Some r"
proof -
  let ?u = "args_get (uid_arg req) []"
  let ?sv = "args_get (server_arg req) (ustr ''BD'')"
  have c: "get_player_info_cached ev ?u ?sv s
             = (Inr r, s\<lparr>cache := lru_promote (?u, ?sv) r (cache s)\<rparr>)"
    by (rule cached_hit [OF h])
  then have f: "fst (get_player_info_cached ev ?u ?sv s) = Inr r"
    by simp
  have "snd (check ev req s)
          = snd (check_ban_status ev ?u (s\<lparr>cache := lru_promote (?u, ?sv) r (cache s)\<rparr>))"
    using check_valid_snd [OF v, of ev s] c by simp
  then have "snd (check ev req s)
          = s\<lparr>cache := lru_promote (?u, ?sv) r (cache s), ban_calls := Suc (ban_calls s)\<rparr>"
    by (simp add: check_ban_status_snd)
  then have "info_calls (snd (check ev req s)) = info_calls s"
    and "map_of (cache (snd (check ev req s))) (?u, ?sv) = Some r"
    by (simp_all add: lru_promote_def)
  with check_valid_fst [OF v f] show ?thesis
    by simp
qed

lemma check_fresh:
  assumes v: "str_isdigit (args_get (uid_arg req) [])"
    and m: "map_of (cache s) (args_get (uid_arg req) [], args_get (server_arg req) (ustr ''BD''))
              = None"
    and g: "fst (get_player_info ev (args_get (uid_arg req) [])
                  (args_get (server_arg req) (ustr ''BD'')) s) = Inr r"
  shows "fst (check ev req s) =
           (if json_encodable (JObj (build_result (str_repr ev) (args_get (uid_arg req) []) r
                      (fst (check_ban_status ev (args_get (uid_arg req) []) s))))
            then \<lparr> status = 200,
                   body = JObj (build_result (str_repr ev) (args_get (uid_arg req) []) r
                      (fst (check_ban_status ev (args_get (uid_arg req) []) s))) \<rparr>
            else internal_error)
       \<and> map_of (cache (snd (check ev req s)))
            (args_get (uid_arg req) [], args_get (server_arg req) (ustr ''BD'')) = Some r"
proof -
  let ?u = "args_get (uid_arg req) []"
  let ?sv = "args_get (server_arg req) (ustr ''BD'')"
  let ?s1 = "s\<lparr>info_calls := Suc (info_calls s),
               cache := lru_insert maxsize (?u, ?sv) r (cache s)\<rparr>"
  have c: "get_player_info_cached ev ?u ?sv s = (Inr r, ?s1)"
    by (rule cached_miss [OF m g])
  then have f: "fst (get_player_info_cached ev ?u ?sv s) = Inr r"
    by simp
  have "snd (check ev req s) = snd (check_ban_status ev ?u ?s1)"
    using check_valid_snd [OF v, of ev s] c by simp
  then have "cache (snd (check ev req s)) = lru_insert maxsize (?u, ?sv) r (cache s)"
    by (simp add: check_ban_status_snd)
  then have "map_of (cache (snd (check ev req s))) (?u, ?sv) = Some r"
    by (simp add: lru_insert_def)
  with check_valid_fst [OF v f] show ?thesis
    by simp
qed

lemma check_leaves_resident:
  assumes v: "str_isdigit (args_get (uid_arg req) [])"
  shows "\<exists>r. fst (check ev req s) =
           (if json_encodable (JObj (build_result (str_repr ev) (args_get (uid_arg req) []) r
                      (fst (check_ban_status ev (args_get (uid_arg req) []) s))))
            then \<lparr> status = 200,
                   body = JObj (build_result (str_repr ev) (args_get (uid_arg req) []) r
                      (fst (check_ban_status ev (args_get (uid_arg req) []) s))) \<rparr>
            else internal_error)
       \<and> map_of (cache (snd (check ev req s)))
            (args_get (uid_arg req) [], args_get (server_arg req) (ustr ''BD'')) = Some r"
proof (cases "map_of (cache s) (args_get (uid_arg req) [], args_get (server_arg req) (ustr ''BD''))")
  case None
  obtain r where "fst (get_player_info ev (args_get (uid_arg req) [])
                  (args_get (server_arg req) (ustr ''BD'')) s) = Inr r"
    using get_player_info_Inr by blast
  from check_fresh [OF v None this] show ?thesis
    by blast
next
  case (Some r)
  from check_resident [OF v Some] show ?thesis
    by blast
qed

text \<open>
  What an answer of the route tells about the account fields, for the record \<open>r\<close> that
  the lookup gave: a 200 carries the fields of \<open>r\<close>, anything else is the internal
  error, which has none of the fields.
\<close>

lemma answer_fields:
  assumes "resp =
     (if json_encodable (JObj (build_result rs uid r b))
      then \<lparr> status = 200, body = JObj (build_result rs uid r b) \<rparr>
      else internal_error)"
  shows "(status resp = 200 \<longleftrightarrow> json_encodable (JObj (build_result rs uid r b)))
       \<and> (status resp = 200 \<longrightarrow> info_fields resp = account_fields r)
       \<and> (status resp \<noteq> 200 \<longrightarrow> resp = internal_error)"
  using assms by (simp add: status_internal_error info_fields_build)

section \<open>The success indicator and the ban texts\<close>

lemma ban_success_iff:
  "success (fst (check_ban_status ev uid s)) \<longleftrightarrow> ban_lookup_ok (ban_api ev (ban_calls s) uid)"
  by (simp add: check_ban_status_fst check_ban_status_try_def ban_lookup_ok_def dict_get_def
        bind_exn_def ban_failed_def
        split: http_result.splits option.splits json.splits sum.splits)

lemma status_texts_differ:
  "ustr ''Account checked successfully'' \<noteq> ustr ''Partial data fetched''"
  by (simp add: ustr_def)

text \<open>
  Claim C5.  The Status field of the result is the success text exactly when the ban
  lookup succeeded, and the failure text exactly when it did not.  The ban lookup
  succeeded exactly when the ban service answered 200 with a usable object.  The field
  does not depend on the account-info service or on the store: under any other world
  and state with the same ban service and ban counter it has the same value.
\<close>

theorem success_indicator:
  "\<exists>result. fst (check_banned_fast ev uid server s) = Inr result
     \<and> (map_of result key_status = Some (JStr (ustr ''Account checked successfully''))
          \<longleftrightarrow> success (fst (check_ban_status ev uid s)))
     \<and> (map_of result key_status = Some (JStr (ustr ''Partial data fetched''))
          \<longleftrightarrow> \<not> success (fst (check_ban_status ev uid s)))
     \<and> (success (fst (check_ban_status ev uid s))
          \<longleftrightarrow> ban_lookup_ok (ban_api ev (ban_calls s) uid))
     \<and> (ban_api ev' = ban_api ev \<and> ban_calls s' = ban_calls s \<longrightarrow>
          (\<exists>result'. fst (check_banned_fast ev' uid server' s') = Inr result'
             \<and> map_of result' key_status = map_of result key_status))"
proof -
  obtain r where r: "fst (check_banned_fast ev uid server s)
         = Inr (build_result (str_repr ev) uid r (fst (check_ban_status ev uid s)))"
    using check_banned_fast_total by blast
  obtain r' where r': "fst (check_banned_fast ev' uid server' s')
         = Inr (build_result (str_repr ev') uid r' (fst (check_ban_status ev' uid s')))"
    using check_banned_fast_total by blast
  have same: "ban_api ev' = ban_api ev \<and> ban_calls s' = ban_calls s \<longrightarrow>
      fst (check_ban_status ev' uid s') = fst (check_ban_status ev uid s)"
    by (simp add: check_ban_status_fst)
  show ?thesis
    using r r' same status_texts_differ
    by (auto simp: build_result_status ban_success_iff)
qed

theorem success_indicator_witness:
  "(\<exists>result. fst (check_banned_fast (env_unavailable\<lparr>ban_api := \<lambda>k u. Responds 200 (Some (JObj []))\<rparr>)
                      (ustr ''12345'') (ustr ''BD'') state0) = Inr result
      \<and> map_of result key_status = Some (JStr (ustr ''Account checked successfully'')))
   \<and> (\<exists>result. fst (check_banned_fast (env_banned\<lparr>ban_api := \<lambda>k u. Raises Timeout\<rparr>)
                      (ustr ''12345'') (ustr ''BD'') state0) = Inr result
      \<and> map_of result key_status = Some (JStr (ustr ''Partial data fetched'')))"
  using success_indicator [where ev = "env_unavailable\<lparr>ban_api := \<lambda>k u. Responds 200 (Some (JObj []))\<rparr>"
          and uid = "ustr ''12345''" and server = "ustr ''BD''" and s = state0
          and ev' = "env_unavailable\<lparr>ban_api := \<lambda>k u. Responds 200 (Some (JObj []))\<rparr>" and s' = state0]
    success_indicator [where ev = "env_banned\<lparr>ban_api := \<lambda>k u. Raises Timeout\<rparr>"
          and uid = "ustr ''12345''" and server = "ustr ''BD''" and s = state0
          and ev' = "env_banned\<lparr>ban_api := \<lambda>k u. Raises Timeout\<rparr>" and s' = state0]
  by (auto simp: ban_lookup_ok_def)

lemma ban_env_banned:
  "fst (check_ban_status env_banned uid s)
     = \<lparr> is_banned = JInt 1, period = JInt 3, success = True \<rparr>"
  by (simp add: check_ban_status_fst check_ban_status_try_def env_banned_def dict_get_def
        bind_exn_def ustr_def)

lemma three_months: "py_str rs (JInt 3) @ ustr '' month(s)'' = ustr ''3 month(s)''"
  by (simp add: py_str_def nat_digits.simps ustr_def)

text \<open>
  Claim C6, as the code has it.  The Account field is the no-entry sign U+1F6AB, a space
  and BANNED when the ban flag is truthy, and the check mark U+2705, a space and NOT
  BANNED otherwise.  The Duration field is the text of the period followed by
  " month(s)" when the flag is truthy and "No ban" otherwise, and the Banned? field is
  the truth value of the flag.
\<close>

theorem ban_texts:
  "\<exists>result. fst (check_banned_fast ev uid server s) = Inr result
     \<and> map_of result key_account =
         Some (JStr (if py_bool (is_banned (fst (check_ban_status ev uid s)))
                     then no_entry_sign # ustr '' BANNED''
                     else check_mark # ustr '' NOT BANNED''))
     \<and> map_of result key_duration =
         Some (JStr (if py_bool (is_banned (fst (check_ban_status ev uid s)))
                     then py_str (str_repr ev) (period (fst (check_ban_status ev uid s)))
                            @ ustr '' month(s)''
                     else ustr ''No ban''))
     \<and> map_of result key_banned =
         Some (JBool (py_bool (is_banned (fst (check_ban_status ev uid s)))))"
proof -
  obtain r where r: "fst (check_banned_fast ev uid server s)
         = Inr (build_result (str_repr ev) uid r (fst (check_ban_status ev uid s)))"
    using check_banned_fast_total by blast
  show ?thesis
    unfolding r
    by (simp only: sum.inject build_result_account build_result_duration build_result_banned
          simp_thms ex_simps)
qed

theorem ban_texts_witness:
  "\<exists>result. fst (check_banned_fast env_banned (ustr ''12345'') (ustr ''BD'') state0) = Inr result
     \<and> map_of result key_account = Some (JStr (no_entry_sign # ustr '' BANNED''))
     \<and> map_of result key_duration = Some (JStr (ustr ''3 month(s)''))
     \<and> map_of result key_banned = Some (JBool True)"
  using ban_texts [where ev = env_banned and uid = "ustr ''12345''" and server = "ustr ''BD''"
          and s = state0]
  by (simp add: ban_env_banned three_months)

theorem banned_text_counterexample:
  "map_sum id (\<lambda>result. map_of result key_account)
       (fst (check_banned_fast env_banned (ustr ''12345'') (ustr ''BD'') state0))
     = Inr (Some (JStr (no_entry_sign # ustr '' BANNED'')))
   \<and> no_entry_sign # ustr '' BANNED'' \<noteq> ustr ''BANNED''"
proof -
  obtain r where r: "fst (check_banned_fast env_banned (ustr ''12345'') (ustr ''BD'') state0)
         = Inr (build_result (str_repr env_banned) (ustr ''12345'') r
                  (fst (check_ban_status env_banned (ustr ''12345'') state0)))"
    using check_banned_fast_total by blast
  have "no_entry_sign # ustr '' BANNED'' \<noteq> ustr ''BANNED''"
    by (simp add: ustr_def)
  then show ?thesis
    unfolding r by (simp add: build_result_account ban_env_banned)
qed

section \<open>The placeholder record\<close>

lemma lacks_keys_section:
  assumes "lacks_keys d sec ks"
  shows "\<exists>ob. dict_get (JObj d) sec (JObj []) = Inr (JObj ob)
              \<and> (\<forall>k \<in> set ks. map_of ob k = None)"
  using assms
  by (auto simp: lacks_keys_def dict_get_def list_all_iff split: option.splits json.splits)

lemma dict_get_missing: "map_of ob k = None \<Longrightarrow> dict_get (JObj ob) k dflt = Inr dflt"
  by (simp add: dict_get_def)

lemma try_placeholder:
  assumes a: "lacks_keys d (ustr ''AccountInfo'')
           [ustr ''AccountName'', ustr ''AccountRegion'', ustr ''AccountLevel'',
            ustr ''AccountEXP'', ustr ''AccountLastLogin'', ustr ''AccountCreateTime'']"
    and p: "lacks_keys d (ustr ''AccountProfileInfo'') [ustr ''BrRankPoint'']"
    and g: "lacks_keys d (ustr ''GuildInfo'') [ustr ''GuildName'']"
    and so: "lacks_keys d (ustr ''SocialInfo'') [ustr ''signature'']"
  shows "get_player_info_try rs (Responds 200 (Some (JObj d))) server =
     Inr \<lparr> nickname = JStr (cross_mark # ustr '' Not available''), region = JStr server,
          lastLoginAt = ustr ''0'', lastLoginReadable = JStr (cross_mark # ustr '' Unknown''),
          createAt = ustr ''0'', createAtReadable = JStr (cross_mark # ustr '' Unknown''),
          level = ustr ''0'', experience = ustr ''0'', rank = ustr ''BR: 0'',
          guild = JStr (ustr ''No Guild''), signature = Some (JStr []) \<rparr>"
proof -
  from lacks_keys_section [OF a] obtain ai where
    ai: "dict_get (JObj d) (ustr ''AccountInfo'') (JObj []) = Inr (JObj ai)"
    and ai_none: "\<forall>k \<in> set [ustr ''AccountName'', ustr ''AccountRegion'',
            ustr ''AccountLevel'', ustr ''AccountEXP'', ustr ''AccountLastLogin'',
            ustr ''AccountCreateTime'']. map_of ai k = None"
    by blast
  from lacks_keys_section [OF p] obtain ap where
    ap: "dict_get (JObj d) (ustr ''AccountProfileInfo'') (JObj []) = Inr (JObj ap)"
    and ap_none: "map_of ap (ustr ''BrRankPoint'') = None"
    by auto
  from lacks_keys_section [OF g] obtain gi where
    gi: "dict_get (JObj d) (ustr ''GuildInfo'') (JObj []) = Inr (JObj gi)"
    and gi_none: "map_of gi (ustr ''GuildName'') = None"
    by auto
  from lacks_keys_section [OF so] obtain si where
    si: "dict_get (JObj d) (ustr ''SocialInfo'') (JObj []) = Inr (JObj si)"
    and si_none: "map_of si (ustr ''signature'') = None"
    by auto
  have ts: "truncate_signature (JStr []) = Inr (JStr [])"
    by (simp add: truncate_signature_def bind_exn_def)
  have pd: "parse_date_string (JStr []) = JStr (cross_mark # ustr '' Unknown'')"
    by (simp add: parse_date_string_def)
  have br: "ustr ''BR: '' @ ustr ''0'' = ustr ''BR: 0''"
    by (simp add: ustr_def)
  from ai_none have k:
    "map_of ai (ustr ''AccountName'') = None" "map_of ai (ustr ''AccountRegion'') = None"
    "map_of ai (ustr ''AccountLevel'') = None" "map_of ai (ustr ''AccountEXP'') = None"
    "map_of ai (ustr ''AccountLastLogin'') = None"
    "map_of ai (ustr ''AccountCreateTime'') = None"
    by simp_all
  show ?thesis
    unfolding get_player_info_try_def
    by (simp add: ai ap gi si bind_exn_def dict_get_missing k ap_none gi_none si_none ts pd br
          py_str_def)
qed

text \<open>
  Claim C10.  When the account-info service answers 200 with an object that lacks the
  expected keys (each of the four sections is absent, or is an object without the keys
  read from it; the empty object is one such body), \<open>get_player_info\<close> returns a placeholder
  record: the nickname is the Not available marker (the cross mark, a space, Not
  available), the region is the server parameter, level and experience are "0", the rank
  is "BR: 0", the guild is "No Guild" and the signature is the empty string.  The record
  differs from every failure fallback, and the result built from it has no BIO key.
\<close>

theorem placeholder_record:
  assumes "info_api ev (info_calls s) uid = Responds 200 (Some (JObj d))"
    and "lacks_keys d (ustr ''AccountInfo'')
           [ustr ''AccountName'', ustr ''AccountRegion'', ustr ''AccountLevel'',
            ustr ''AccountEXP'', ustr ''AccountLastLogin'', ustr ''AccountCreateTime'']"
    and "lacks_keys d (ustr ''AccountProfileInfo'') [ustr ''BrRankPoint'']"
    and "lacks_keys d (ustr ''GuildInfo'') [ustr ''GuildName'']"
    and "lacks_keys d (ustr ''SocialInfo'') [ustr ''signature'']"
  shows "\<exists>r. fst (get_player_info ev uid server s) = Inr r
     \<and> r = \<lparr> nickname = JStr (cross_mark # ustr '' Not available''), region = JStr server,
             lastLoginAt = ustr ''0'', lastLoginReadable = JStr (cross_mark # ustr '' Unknown''),
             createAt = ustr ''0'', createAtReadable = JStr (cross_mark # ustr '' Unknown''),
             level = ustr ''0'', experience = ustr ''0'', rank = ustr ''BR: 0'',
             guild = JStr (ustr ''No Guild''), signature = Some (JStr []) \<rparr>
     \<and> r \<noteq> fallback_record nick server'
     \<and> map_of (build_result rs uid' r b) key_bio = None"
proof -
  let ?r = "\<lparr> nickname = JStr (cross_mark # ustr '' Not available''), region = JStr server,
             lastLoginAt = ustr ''0'', lastLoginReadable = JStr (cross_mark # ustr '' Unknown''),
             createAt = ustr ''0'', createAtReadable = JStr (cross_mark # ustr '' Unknown''),
             level = ustr ''0'', experience = ustr ''0'', rank = ustr ''BR: 0'',
             guild = JStr (ustr ''No Guild''), signature = Some (JStr []) \<rparr>"
  have "fst (get_player_info ev uid server s) = Inr ?r"
    using assms by (simp add: get_player_info_fst try_placeholder except_Inr)
  moreover have "?r \<noteq> fallback_record nick server'"
    by (simp add: fallback_record_def)
  moreover have "map_of (build_result rs uid' ?r b) key_bio = None"
    by (simp add: build_result_bio)
  ultimately show ?thesis
    by blast
qed

theorem placeholder_record_witness:
  "\<exists>r. fst (get_player_info env_banned (ustr ''12345'') (ustr ''BD'') state0) = Inr r
     \<and> nickname r = JStr (cross_mark # ustr '' Not available'')
     \<and> region r = JStr (ustr ''BD'')
     \<and> rank r = ustr ''BR: 0''
     \<and> signature r = Some (JStr [])"
  using placeholder_record [where ev = env_banned and s = state0 and uid = "ustr ''12345''"
          and d = "[]" and server = "ustr ''BD''"]
  by (auto simp: env_banned_def state0_def lacks_keys_def)

section \<open>Signature truncation\<close>

lemma truncate_signature_str:
  "truncate_signature (JStr sg)
     = Inr (JStr (if length sg > 50 then take 50 sg @ ustr ''...'' else sg))"
  by (simp add: truncate_signature_def bind_exn_def)

lemma dict_get_obj:
  "dict_get (JObj ob) k dflt = Inr (case map_of ob k of None \<Rightarrow> dflt | Some v \<Rightarrow> v)"
  by (simp add: dict_get_def)

lemma section_ok_value:
  "section_ok d sec \<Longrightarrow>
     \<exists>ob. (case map_of d sec of None \<Rightarrow> JObj [] | Some v \<Rightarrow> v) = JObj ob"
  by (auto simp: section_ok_def split: option.splits json.splits)

lemma try_signature:
  assumes a: "section_ok d (ustr ''AccountInfo'')"
    and p: "section_ok d (ustr ''AccountProfileInfo'')"
    and g: "section_ok d (ustr ''GuildInfo'')"
    and so: "map_of d (ustr ''SocialInfo'') = Some (JObj so)"
    and sg: "map_of so (ustr ''signature'') = Some (JStr sg)"
  shows "\<exists>r. get_player_info_try rs (Responds 200 (Some (JObj d))) server = Inr r
     \<and> signature r = Some (JStr (if length sg > 50 then take 50 sg @ ustr ''...'' else sg))"
proof -
  from section_ok_value [OF a] obtain ai where
    ai: "(case map_of d (ustr ''AccountInfo'') of None \<Rightarrow> JObj [] | Some v \<Rightarrow> v) = JObj ai"
    by blast
  from section_ok_value [OF p] obtain ap where
    ap: "(case map_of d (ustr ''AccountProfileInfo'') of None \<Rightarrow> JObj [] | Some v \<Rightarrow> v)
           = JObj ap"
    by blast
  from section_ok_value [OF g] obtain gi where
    gi: "(case map_of d (ustr ''GuildInfo'') of None \<Rightarrow> JObj [] | Some v \<Rightarrow> v) = JObj gi"
    by blast
  show ?thesis
    unfolding get_player_info_try_def
    by (simp add: dict_get_obj bind_exn_def ai ap gi so sg truncate_signature_str)
qed

text \<open>
  Claim C8.  When the account-info service answers 200 with an object whose SocialInfo
  section holds a signature string (the other sections being absent or objects, so that
  nothing raises), the record \<open>get_player_info\<close> returns stores, for a signature longer
  than 50 characters, its first 50 characters followed by three full stops, and a
  signature of at most 50 characters as it is: a signature of 60 characters is stored as
  53 characters, the first 50 and the marker, and one of 40 characters unchanged.  The
  BIO field of the \<open>/check\<close> result is this stored text (absent for the empty signature).
\<close>

theorem signature_truncation:
  assumes "info_api ev (info_calls s) uid = Responds 200 (Some (JObj d))"
    and "section_ok d (ustr ''AccountInfo'')"
    and "section_ok d (ustr ''AccountProfileInfo'')"
    and "section_ok d (ustr ''GuildInfo'')"
    and "map_of d (ustr ''SocialInfo'') = Some (JObj so)"
    and "map_of so (ustr ''signature'') = Some (JStr sg)"
  shows "\<exists>r. fst (get_player_info ev uid server s) = Inr r
     \<and> signature r = Some (JStr (if length sg > 50 then take 50 sg @ ustr ''...'' else sg))
     \<and> (length sg = 60 \<longrightarrow>
          (\<exists>t. signature r = Some (JStr t) \<and> length t = 53 \<and> take 50 t = take 50 sg
               \<and> drop 50 t = ustr ''...''))
     \<and> (length sg = 40 \<longrightarrow> signature r = Some (JStr sg))
     \<and> map_of (build_result rs uid' r b) key_bio =
          (if sg = [] then None
           else Some (JStr (if length sg > 50 then take 50 sg @ ustr ''...'' else sg)))"
proof -
  obtain r where t: "get_player_info_try (str_repr ev) (Responds 200 (Some (JObj d))) server = Inr r"
    and sr: "signature r = Some (JStr (if length sg > 50 then take 50 sg @ ustr ''...'' else sg))"
    using try_signature [OF assms(2-6)] by blast
  have f: "fst (get_player_info ev uid server s) = Inr r"
    using assms(1) t by (simp add: get_player_info_fst except_Inr)
  have sixty: "length sg = 60 \<longrightarrow>
          (\<exists>t. signature r = Some (JStr t) \<and> length t = 53 \<and> take 50 t = take 50 sg
               \<and> drop 50 t = ustr ''...'')"
    using sr by (simp add: ustr_def)
  have forty: "length sg = 40 \<longrightarrow> signature r = Some (JStr sg)"
    using sr by simp
  have bio: "map_of (build_result rs uid' r b) key_bio =
          (if sg = [] then None
           else Some (JStr (if length sg > 50 then take 50 sg @ ustr ''...'' else sg)))"
    using sr by (auto simp: build_result_bio)
  from f sr sixty forty bio show ?thesis
    by blast
qed

theorem signature_truncation_witness:
  "(\<exists>r. fst (get_player_info
              (env_banned\<lparr>info_api := \<lambda>k u. Responds 200 (Some (JObj
                 [(ustr ''SocialInfo'', JObj [(ustr ''signature'', JStr (replicate 60 97))])]))\<rparr>)
              (ustr ''12345'') (ustr ''BD'') state0) = Inr r
        \<and> signature r = Some (JStr (replicate 50 97 @ ustr ''...'')))
   \<and> (\<exists>r. fst (get_player_info
              (env_banned\<lparr>info_api := \<lambda>k u. Responds 200 (Some (JObj
                 [(ustr ''SocialInfo'', JObj [(ustr ''signature'', JStr (replicate 40 97))])]))\<rparr>)
              (ustr ''12345'') (ustr ''BD'') state0) = Inr r
        \<and> signature r = Some (JStr (replicate 40 97)))"
  using signature_truncation [where ev = "env_banned\<lparr>info_api := \<lambda>k u. Responds 200 (Some (JObj
                 [(ustr ''SocialInfo'', JObj [(ustr ''signature'', JStr (replicate 60 97))])]))\<rparr>"
          and uid = "ustr ''12345''" and server = "ustr ''BD''" and s = state0
          and d = "[(ustr ''SocialInfo'', JObj [(ustr ''signature'', JStr (replicate 60 97))])]"
          and so = "[(ustr ''signature'', JStr (replicate 60 97))]" and sg = "replicate 60 97"]
    signature_truncation [where ev = "env_banned\<lparr>info_api := \<lambda>k u. Responds 200 (Some (JObj
                 [(ustr ''SocialInfo'', JObj [(ustr ''signature'', JStr (replicate 40 97))])]))\<rparr>"
          and uid = "ustr ''12345''" and server = "ustr ''BD''" and s = state0
          and d = "[(ustr ''SocialInfo'', JObj [(ustr ''signature'', JStr (replicate 40 97))])]"
          and so = "[(ustr ''signature'', JStr (replicate 40 97))]" and sg = "replicate 40 97"]
  by (simp add: section_ok_def ustr_def) blast

section \<open>Cache idempotence\<close>

lemma ban_env_surrogate:
  "fst (check_ban_status env_surrogate_ban uid s)
     = \<lparr> is_banned = JInt 1, period = JStr [0xD800], success = True \<rparr>"
  by (simp add: check_ban_status_fst check_ban_status_try_def env_surrogate_ban_def dict_get_def
        bind_exn_def ustr_def)

lemma ban_env_unavailable: "fst (check_ban_status env_unavailable uid s) = ban_failed"
  by (simp add: check_ban_status_fst check_ban_status_try_def env_unavailable_def)

lemma fetch_env_banned:
  "fst (get_player_info env_banned uid server s) =
     Inr \<lparr> nickname = JStr (cross_mark # ustr '' Not available''), region = JStr server,
          lastLoginAt = ustr ''0'', lastLoginReadable = JStr (cross_mark # ustr '' Unknown''),
          createAt = ustr ''0'', createAtReadable = JStr (cross_mark # ustr '' Unknown''),
          level = ustr ''0'', experience = ustr ''0'', rank = ustr ''BR: 0'',
          guild = JStr (ustr ''No Guild''), signature = Some (JStr []) \<rparr>"
proof -
  have "info_api env_banned (info_calls s) uid = Responds 200 (Some (JObj []))"
    by (simp add: env_banned_def)
  then show ?thesis
    by (simp add: get_player_info_fst try_placeholder lacks_keys_def except_Inr)
qed

lemma fetch_env_unavailable:
  "fst (get_player_info env_unavailable uid server s) =
     Inr (fallback_record (cross_mark # ustr '' Fetch failed'') server)"
  by (simp add: get_player_info_fst env_unavailable_def try_not_200 except_Inr)

text \<open>
  Claim C4, as the code has it.  For a valid identifier: when the entry of (uid, server)
  is resident with record \<open>r\<close>, \<open>/check\<close> sends no request to the account-info service,
  the entry stays resident, and the answer is either a 200 whose account fields are
  those of \<open>r\<close>, whatever the upstream would answer now, or the internal error 500, which
  carries no account field; it is the 200 exactly when the result built from \<open>r\<close> and
  the ban record can be rendered.  When the entry is not resident the same holds with
  the record the fresh fetch returns, and that record is what the store then holds.  So
  of two consecutive lookups of the same pair, in any worlds, the second sends nothing
  to the account-info service, and when both answer 200 they carry the same account
  fields.
\<close>

theorem cache_idempotence:
  assumes "str_isdigit (args_get (uid_arg req) [])"
  shows
    "(map_of (cache s) (args_get (uid_arg req) [], args_get (server_arg req) (ustr ''BD''))
         = Some r \<longrightarrow>
        (status (fst (check ev req s)) = 200
           \<longleftrightarrow> json_encodable (JObj (build_result (str_repr ev) (args_get (uid_arg req) []) r
                  (fst (check_ban_status ev (args_get (uid_arg req) []) s)))))
        \<and> (status (fst (check ev req s)) = 200 \<longrightarrow>
             info_fields (fst (check ev req s)) = account_fields r)
        \<and> (status (fst (check ev req s)) \<noteq> 200 \<longrightarrow> fst (check ev req s) = internal_error)
        \<and> info_calls (snd (check ev req s)) = info_calls s
        \<and> map_of (cache (snd (check ev req s)))
             (args_get (uid_arg req) [], args_get (server_arg req) (ustr ''BD'')) = Some r)
     \<and> (map_of (cache s) (args_get (uid_arg req) [], args_get (server_arg req) (ustr ''BD''))
           = None
         \<and> fst (get_player_info ev (args_get (uid_arg req) [])
                  (args_get (server_arg req) (ustr ''BD'')) s) = Inr r \<longrightarrow>
        (status (fst (check ev req s)) = 200
           \<longleftrightarrow> json_encodable (JObj (build_result (str_repr ev) (args_get (uid_arg req) []) r
                  (fst (check_ban_status ev (args_get (uid_arg req) []) s)))))
        \<and> (status (fst (check ev req s)) = 200 \<longrightarrow>
             info_fields (fst (check ev req s)) = account_fields r)
        \<and> (status (fst (check ev req s)) \<noteq> 200 \<longrightarrow> fst (check ev req s) = internal_error)
        \<and> map_of (cache (snd (check ev req s)))
             (args_get (uid_arg req) [], args_get (server_arg req) (ustr ''BD'')) = Some r)
     \<and> (status (fst (check ev req s)) = 200
         \<and> status (fst (check ev' req (snd (check ev req s)))) = 200 \<longrightarrow>
        info_fields (fst (check ev' req (snd (check ev req s))))
          = info_fields (fst (check ev req s)))
     \<and> info_calls (snd (check ev' req (snd (check ev req s))))
         = info_calls (snd (check ev req s))
     \<and> status internal_error = 500
     \<and> info_fields internal_error = [None, None, None, None, None, None, None, None, None]"
proof -
  note v = assms
  let ?u = "args_get (uid_arg req) []"
  let ?k = "(args_get (uid_arg req) [], args_get (server_arg req) (ustr ''BD''))"
  have hit: "map_of (cache s) ?k = Some r \<longrightarrow>
        (status (fst (check ev req s)) = 200
           \<longleftrightarrow> json_encodable (JObj (build_result (str_repr ev) ?u r
                  (fst (check_ban_status ev ?u s)))))
        \<and> (status (fst (check ev req s)) = 200 \<longrightarrow>
             info_fields (fst (check ev req s)) = account_fields r)
        \<and> (status (fst (check ev req s)) \<noteq> 200 \<longrightarrow> fst (check ev req s) = internal_error)
        \<and> info_calls (snd (check ev req s)) = info_calls s
        \<and> map_of (cache (snd (check ev req s))) ?k = Some r"
  proof
    assume h: "map_of (cache s) ?k = Some r"
    from check_resident [OF v h, of ev]
    have f: "fst (check ev req s) =
           (if json_encodable (JObj (build_result (str_repr ev) ?u r
                      (fst (check_ban_status ev ?u s))))
            then \<lparr> status = 200,
                   body = JObj (build_result (str_repr ev) ?u r
                      (fst (check_ban_status ev ?u s))) \<rparr>
            else internal_error)"
      and rest: "info_calls (snd (check ev req s)) = info_calls s"
        "map_of (cache (snd (check ev req s))) ?k = Some r"
      by simp_all
    from answer_fields [OF f] rest
    show "(status (fst (check ev req s)) = 200
           \<longleftrightarrow> json_encodable (JObj (build_result (str_repr ev) ?u r
                  (fst (check_ban_status ev ?u s)))))
        \<and> (status (fst (check ev req s)) = 200 \<longrightarrow>
             info_fields (fst (check ev req s)) = account_fields r)
        \<and> (status (fst (check ev req s)) \<noteq> 200 \<longrightarrow> fst (check ev req s) = internal_error)
        \<and> info_calls (snd (check ev req s)) = info_calls s
        \<and> map_of (cache (snd (check ev req s))) ?k = Some r"
      by blast
  qed
  have miss: "map_of (cache s) ?k = None
         \<and> fst (get_player_info ev ?u (args_get (server_arg req) (ustr ''BD'')) s) = Inr r \<longrightarrow>
        (status (fst (check ev req s)) = 200
           \<longleftrightarrow> json_encodable (JObj (build_result (str_repr ev) ?u r
                  (fst (check_ban_status ev ?u s)))))
        \<and> (status (fst (check ev req s)) = 200 \<longrightarrow>
             info_fields (fst (check ev req s)) = account_fields r)
        \<and> (status (fst (check ev req s)) \<noteq> 200 \<longrightarrow> fst (check ev req s) = internal_error)
        \<and> map_of (cache (snd (check ev req s))) ?k = Some r"
  proof
    assume a: "map_of (cache s) ?k = None
         \<and> fst (get_player_info ev ?u (args_get (server_arg req) (ustr ''BD'')) s) = Inr r"
    then have m: "map_of (cache s) ?k = None"
      and g: "fst (get_player_info ev ?u (args_get (server_arg req) (ustr ''BD'')) s) = Inr r"
      by simp_all
    from check_fresh [OF v m g]
    have f: "fst (check ev req s) =
           (if json_encodable (JObj (build_result (str_repr ev) ?u r
                      (fst (check_ban_status ev ?u s))))
            then \<lparr> status = 200,
                   body = JObj (build_result (str_repr ev) ?u r
                      (fst (check_ban_status ev ?u s))) \<rparr>
            else internal_error)"
      and rest: "map_of (cache (snd (check ev req s))) ?k = Some r"
      by simp_all
    from answer_fields [OF f] rest
    show "(status (fst (check ev req s)) = 200
           \<longleftrightarrow> json_encodable (JObj (build_result (str_repr ev) ?u r
                  (fst (check_ban_status ev ?u s)))))
        \<and> (status (fst (check ev req s)) = 200 \<longrightarrow>
             info_fields (fst (check ev req s)) = account_fields r)
        \<and> (status (fst (check ev req s)) \<noteq> 200 \<longrightarrow> fst (check ev req s) = internal_error)
        \<and> map_of (cache (snd (check ev req s))) ?k = Some r"
      by blast
  qed
  obtain r0 where first: "fst (check ev req s) =
           (if json_encodable (JObj (build_result (str_repr ev) ?u r0
                      (fst (check_ban_status ev ?u s))))
            then \<lparr> status = 200,
                   body = JObj (build_result (str_repr ev) ?u r0
                      (fst (check_ban_status ev ?u s))) \<rparr>
            else internal_error)"
    and res: "map_of (cache (snd (check ev req s))) ?k = Some r0"
    using check_leaves_resident [OF v, of ev s] by blast
  from check_resident [OF v res, of ev']
  have second: "fst (check ev' req (snd (check ev req s))) =
           (if json_encodable (JObj (build_result (str_repr ev') ?u r0
                      (fst (check_ban_status ev' ?u (snd (check ev req s))))))
            then \<lparr> status = 200,
                   body = JObj (build_result (str_repr ev') ?u r0
                      (fst (check_ban_status ev' ?u (snd (check ev req s))))) \<rparr>
            else internal_error)"
    and calls: "info_calls (snd (check ev' req (snd (check ev req s))))
         = info_calls (snd (check ev req s))"
    by simp_all
  have both: "status (fst (check ev req s)) = 200
         \<and> status (fst (check ev' req (snd (check ev req s)))) = 200 \<longrightarrow>
        info_fields (fst (check ev' req (snd (check ev req s))))
          = info_fields (fst (check ev req s))"
    using answer_fields [OF first] answer_fields [OF second] by simp
  from hit miss both calls status_internal_error info_fields_internal_error
  show ?thesis
    by blast
qed

text \<open>
  An example: the first \<open>/check\<close> meets an account-info service that is down and stores the
  fallback; the second, in a world where the service answers, returns the same fields.
\<close>

theorem cache_idempotence_witness:
  "status (fst (check env_unavailable
         \<lparr> uid_arg = Some (ustr ''12345''), server_arg = None \<rparr> state0)) = 200
   \<and> info_fields (fst (check env_unavailable
         \<lparr> uid_arg = Some (ustr ''12345''), server_arg = None \<rparr> state0))
     = account_fields (fallback_record (cross_mark # ustr '' Fetch failed'') (ustr ''BD''))
   \<and> info_calls (snd (check env_banned \<lparr> uid_arg = Some (ustr ''12345''), server_arg = None \<rparr>
        (snd (check env_unavailable \<lparr> uid_arg = Some (ustr ''12345''), server_arg = None \<rparr> state0))))
     = info_calls (snd (check env_unavailable
         \<lparr> uid_arg = Some (ustr ''12345''), server_arg = None \<rparr> state0))"
proof -
  let ?req = "\<lparr> uid_arg = Some (ustr ''12345''), server_arg = None \<rparr>"
  let ?u = "args_get (uid_arg ?req) []"
  let ?sv = "args_get (server_arg ?req) (ustr ''BD'')"
  let ?r = "fallback_record (cross_mark # ustr '' Fetch failed'') ?sv"
  have v: "str_isdigit ?u"
    by (simp add: args_get_def str_isdigit_def isdigit_char_def unicode_digit_ranges_def ustr_def)
  have m: "map_of (cache state0) (?u, ?sv) = None"
    by (simp add: state0_def)
  have g: "fst (get_player_info env_unavailable ?u ?sv state0) = Inr ?r"
    by (rule fetch_env_unavailable)
  have e: "json_encodable (JObj (build_result (str_repr env_unavailable) ?u ?r
             (fst (check_ban_status env_unavailable ?u state0))))"
    by (subst json_encodable_build_result)
       (simp add: ban_env_unavailable fallback_record_def ban_failed_def args_get_def
          str_encodable_Cons str_encodable_ustr is_surrogate_def cross_mark_def)
  note t = cache_idempotence [OF v, where s = state0 and ev = env_unavailable
      and ev' = env_banned and r = ?r]
  from t m g e have "status (fst (check env_unavailable ?req state0)) = 200"
    by blast
  moreover from t m g this have "info_fields (fst (check env_unavailable ?req state0))
      = account_fields ?r"
    by blast
  moreover from t have "info_calls (snd (check env_banned ?req (snd (check env_unavailable ?req state0))))
      = info_calls (snd (check env_unavailable ?req state0))"
    by blast
  ultimately show ?thesis
    by (simp add: args_get_def)
qed

text \<open>
  The claim as it was stated fails: after a first \<open>/check\<close> that answers 200 with the
  account fields of the placeholder record, a second one for the same pair, in a world
  whose ban service reports a period holding a lone surrogate, cannot render its result
  and answers 500 with no account field, although the entry is resident.
\<close>

theorem cache_idempotence_counterexample:
  "status (fst (check env_banned
       \<lparr> uid_arg = Some (ustr ''12345''), server_arg = None \<rparr> state0)) = 200
   \<and> status (fst (check env_surrogate_ban \<lparr> uid_arg = Some (ustr ''12345''), server_arg = None \<rparr>
        (snd (check env_banned \<lparr> uid_arg = Some (ustr ''12345''), server_arg = None \<rparr> state0))))
     = 500
   \<and> info_fields (fst (check env_surrogate_ban
        \<lparr> uid_arg = Some (ustr ''12345''), server_arg = None \<rparr>
        (snd (check env_banned \<lparr> uid_arg = Some (ustr ''12345''), server_arg = None \<rparr> state0))))
     \<noteq> info_fields (fst (check env_banned
        \<lparr> uid_arg = Some (ustr ''12345''), server_arg = None \<rparr> state0))"
proof -
  let ?req = "\<lparr> uid_arg = Some (ustr ''12345''), server_arg = None \<rparr>"
  let ?u = "args_get (uid_arg ?req) []"
  let ?sv = "args_get (server_arg ?req) (ustr ''BD'')"
  let ?r = "\<lparr> nickname = JStr (cross_mark # ustr '' Not available''), region = JStr ?sv,
          lastLoginAt = ustr ''0'', lastLoginReadable = JStr (cross_mark # ustr '' Unknown''),
          createAt = ustr ''0'', createAtReadable = JStr (cross_mark # ustr '' Unknown''),
          level = ustr ''0'', experience = ustr ''0'', rank = ustr ''BR: 0'',
          guild = JStr (ustr ''No Guild''), signature = Some (JStr []) \<rparr>"
  have v: "str_isdigit ?u"
    by (simp add: args_get_def str_isdigit_def isdigit_char_def unicode_digit_ranges_def ustr_def)
  have m: "map_of (cache state0) (?u, ?sv) = None"
    by (simp add: state0_def)
  have g: "fst (get_player_info env_banned ?u ?sv state0) = Inr ?r"
    by (rule fetch_env_banned)
  have e1: "json_encodable (JObj (build_result (str_repr env_banned) ?u ?r
              (fst (check_ban_status env_banned ?u state0))))"
    by (subst json_encodable_build_result) (simp add: ban_env_banned args_get_def str_encodable_Cons
          str_encodable_Nil str_encodable_ustr str_encodable_append is_surrogate_def
          cross_mark_def py_str_def nat_digits.simps)
  have first: "fst (check env_banned ?req state0) =
      \<lparr> status = 200,
        body = JObj (build_result (str_repr env_banned) ?u ?r
                 (fst (check_ban_status env_banned ?u state0))) \<rparr>"
    and res: "map_of (cache (snd (check env_banned ?req state0))) (?u, ?sv) = Some ?r"
    using check_fresh [OF v m g] e1 by simp_all
  have e2: "\<not> json_encodable (JObj (build_result (str_repr env_surrogate_ban) ?u ?r
              (fst (check_ban_status env_surrogate_ban ?u (snd (check env_banned ?req state0))))))"
    by (subst json_encodable_build_result) (simp add: ban_env_surrogate py_str_def str_encodable_Cons
          is_surrogate_def)
  have second: "fst (check env_surrogate_ban ?req (snd (check env_banned ?req state0)))
      = internal_error"
    using check_resident [OF v res, of env_surrogate_ban] e2 by simp
  have "info_fields (fst (check env_banned ?req state0)) = account_fields ?r"
    by (simp only: first info_fields_build)
  then have "info_fields (fst (check env_surrogate_ban ?req (snd (check env_banned ?req state0))))
      \<noteq> info_fields (fst (check env_banned ?req state0))"
    using account_fields_not_absent [of ?r]
    by (simp only: second info_fields_internal_error) simp
  moreover have "status (fst (check env_banned ?req state0)) = 200"
    by (simp only: first) simp
  moreover have "status (fst (check env_surrogate_ban ?req (snd (check env_banned ?req state0))))
      = 500"
    by (simp only: second status_internal_error)
  ultimately show ?thesis
    by blast
qed

section \<open>Validation of the identifier\<close>

lemma isdigit_char_ascii: "c < 128 \<Longrightarrow> isdigit_char c = ascii_digit c"
  by (auto simp: isdigit_char_def unicode_digit_ranges_def ascii_digit_def)

lemma str_isdigit_rejects: "c \<in> set u \<Longrightarrow> \<not> isdigit_char c \<Longrightarrow> \<not> str_isdigit u"
  by (auto simp: str_isdigit_def list_all_iff)

lemma check_calls_valid:
  assumes v: "str_isdigit (args_get (uid_arg req) [])"
  shows "ban_calls (snd (check ev req s)) = Suc (ban_calls s)"
proof -
  have "ban_calls (snd (get_player_info_cached ev (args_get (uid_arg req) [])
           (args_get (server_arg req) (ustr ''BD'')) s)) = ban_calls s"
    using cached_result by blast
  then show ?thesis
    by (simp add: check_valid_snd [OF v] check_ban_status_snd)
qed

lemma check_calls_fresh:
  assumes v: "str_isdigit (args_get (uid_arg req) [])"
    and m: "map_of (cache s) (args_get (uid_arg req) [], args_get (server_arg req) (ustr ''BD''))
              = None"
  shows "info_calls (snd (check ev req s)) = Suc (info_calls s)"
proof -
  obtain r where g: "fst (get_player_info ev (args_get (uid_arg req) [])
        (args_get (server_arg req) (ustr ''BD'')) s) = Inr r"
    using get_player_info_Inr by blast
  show ?thesis
    by (simp add: check_valid_snd [OF v] cached_miss [OF m g] check_ban_status_snd)
qed

text \<open>
  What the validation does refuse.  A request with no uid or an empty uid gets status 400
  and the message that the uid is required.  A request whose uid is not empty and fails
  \<open>str.isdigit\<close> gets status 400 and the message that the format is invalid; the two
  messages differ.  In both cases the state is unchanged: nothing was sent upstream and
  the store was not touched.  \<open>str.isdigit\<close> fails as soon as one character is not a
  Unicode digit, and among the ASCII characters the digits are exactly 0 to 9, so a sign,
  a decimal point, a space or a letter is refused.
\<close>

lemma check_rejects_invalid_uid:
  "(args_get (uid_arg req) [] = [] \<longrightarrow>
      check ev req s =
        (\<lparr> status = 400,
           body = error_envelope (ustr ''Player ID (uid) is required!'') 400 \<rparr>, s))
   \<and> (uid_arg req = Some u \<and> u \<noteq> [] \<and> \<not> str_isdigit u \<longrightarrow>
      check ev req s =
        (\<lparr> status = 400,
           body = error_envelope (ustr ''Invalid UID format. Must be numeric!'') 400 \<rparr>, s))
   \<and> error_envelope (ustr ''Player ID (uid) is required!'') 400
       \<noteq> error_envelope (ustr ''Invalid UID format. Must be numeric!'') 400
   \<and> (c \<in> set u \<and> c < 128 \<and> \<not> ascii_digit c \<longrightarrow> \<not> str_isdigit u)
   \<and> (c \<in> set u \<and> \<not> isdigit_char c \<longrightarrow> \<not> str_isdigit u)"
proof -
  have a: "args_get (uid_arg req) [] = [] \<longrightarrow>
      check ev req s =
        (\<lparr> status = 400,
           body = error_envelope (ustr ''Player ID (uid) is required!'') 400 \<rparr>, s)"
    by (simp add: check_def Let_def)
  have b: "uid_arg req = Some u \<and> u \<noteq> [] \<and> \<not> str_isdigit u \<longrightarrow>
      check ev req s =
        (\<lparr> status = 400,
           body = error_envelope (ustr ''Invalid UID format. Must be numeric!'') 400 \<rparr>, s)"
    by (simp add: check_def Let_def args_get_def)
  have m: "error_envelope (ustr ''Player ID (uid) is required!'') 400
       \<noteq> error_envelope (ustr ''Invalid UID format. Must be numeric!'') 400"
    by (simp add: error_envelope_def ustr_def)
  have d: "c \<in> set u \<and> c < 128 \<and> \<not> ascii_digit c \<longrightarrow> \<not> str_isdigit u"
    using str_isdigit_rejects [of c u] isdigit_char_ascii [of c] by blast
  have e: "c \<in> set u \<and> \<not> isdigit_char c \<longrightarrow> \<not> str_isdigit u"
    using str_isdigit_rejects [of c u] by blast
  from a b m d e show ?thesis
    by blast
qed

lemma check_rejects_invalid_uid_example:
  "check env_banned \<lparr> uid_arg = None, server_arg = None \<rparr> state0 =
        (\<lparr> status = 400,
           body = error_envelope (ustr ''Player ID (uid) is required!'') 400 \<rparr>, state0)
   \<and> check env_banned \<lparr> uid_arg = Some (ustr ''-12.5''), server_arg = None \<rparr> state0 =
        (\<lparr> status = 400,
           body = error_envelope (ustr ''Invalid UID format. Must be numeric!'') 400 \<rparr>, state0)"
  using check_rejects_invalid_uid [where req = "\<lparr> uid_arg = None, server_arg = None \<rparr>"
          and ev = env_banned and s = state0]
    check_rejects_invalid_uid [where req = "\<lparr> uid_arg = Some (ustr ''-12.5''), server_arg = None \<rparr>"
          and ev = env_banned and s = state0 and u = "ustr ''-12.5''" and c = 45]
  by (simp add: args_get_def ustr_def ascii_digit_def)

text \<open>
  Claim C1.  The claim is that every request to \<open>/check\<close> whose uid is missing, empty or
  not made of decimal digits only is answered with status 400 and a structured error
  body, with no upstream call.  The code does not do this for the uid made of the one
  character superscript two (U+00B2): it is not a decimal digit, yet \<open>str.isdigit\<close>
  accepts it, so the route answers 200 and sends one request to each upstream service.
\<close>

theorem superscript_two_uid_accepted:
  "\<not> list_all ascii_digit [0xB2]
   \<and> status (fst (check env_unavailable \<lparr> uid_arg = Some [0xB2], server_arg = None \<rparr> state0))
       = 200
   \<and> info_calls (snd (check env_unavailable
         \<lparr> uid_arg = Some [0xB2], server_arg = None \<rparr> state0)) = 1
   \<and> ban_calls (snd (check env_unavailable
         \<lparr> uid_arg = Some [0xB2], server_arg = None \<rparr> state0)) = 1"
proof -
  let ?req = "\<lparr> uid_arg = Some [0xB2], server_arg = None \<rparr>"
  have v: "str_isdigit (args_get (uid_arg ?req) [])"
    by (simp add: args_get_def str_isdigit_def isdigit_char_def unicode_digit_ranges_def)
  have m: "map_of (cache state0) (args_get (uid_arg ?req) [], args_get (server_arg ?req) (ustr ''BD''))
             = None"
    by (simp add: state0_def)
  have "info_calls (snd (check env_unavailable ?req state0)) = 1"
    using check_calls_fresh [OF v m, of env_unavailable] by (simp add: state0_def)
  moreover have "ban_calls (snd (check env_unavailable ?req state0)) = 1"
    using check_calls_valid [OF v, of env_unavailable state0] by (simp add: state0_def)
  moreover have "status (fst (check env_unavailable ?req state0)) = 200"
  proof -
    let ?u = "args_get (uid_arg ?req) []"
    let ?sv = "args_get (server_arg ?req) (ustr ''BD'')"
    let ?r = "fallback_record (cross_mark # ustr '' Fetch failed'') ?sv"
    have g: "fst (get_player_info env_unavailable ?u ?sv state0) = Inr ?r"
      by (rule fetch_env_unavailable)
    have e: "json_encodable (JObj (build_result (str_repr env_unavailable) ?u ?r
               (fst (check_ban_status env_unavailable ?u state0))))"
      by (subst json_encodable_build_result)
         (simp add: ban_env_unavailable fallback_record_def ban_failed_def args_get_def
            str_encodable_Cons str_encodable_Nil str_encodable_ustr is_surrogate_def
            cross_mark_def)
    from check_fresh [OF v m g] e show ?thesis
      by simp
  qed
  moreover have "\<not> list_all ascii_digit [0xB2]"
    by (simp add: ascii_digit_def)
  ultimately show ?thesis
    by blast
qed

section \<open>The raw pass-through\<close>




end
